theory Spec2Isabelle
  imports Main "HOL-Library.AList"
begin

section \<open>Decoded documents (package parser)\<close>

text \<open>
  A decoded YAML value, as the Go code sees it behind \<open>interface{}\<close>. The rules only ever
  assert the dynamic types \<open>bool\<close>, \<open>int\<close>, \<open>string\<close>, \<open>[]interface{}\<close> and
  \<open>map[string]interface{}\<close>; every other dynamic type the decoder can produce (a float,
  a 64-bit integer that does not fit \<open>int\<close>, a timestamp, a mapping with a key that is
  not a string) fails each of these assertions and is the constructor \<open>VOther\<close>.
  A mapping is an association list read with \<open>map_of\<close>; Go's \<open>int\<close> is modelled by
  \<open>int\<close>: the rules compare it with 0 and -1 and never compute with it.
\<close>

datatype yvalue =
    VNil
  | VBool bool
  | VInt int
  | VString string
  | VSlice "yvalue list"
  | VMap "(string \<times> yvalue) list"
  | VOther

type_synonym ymap = "(string \<times> yvalue) list"

text \<open>\<open>m[k]\<close> on a Go map: the zero value (the nil interface) when the key is missing;
  reading a nil map is the same as reading an empty one.\<close>

definition index :: "ymap \<Rightarrow> string \<Rightarrow> yvalue" where
  "index m k = (case map_of m k of Some v \<Rightarrow> v | None \<Rightarrow> VNil)"

text \<open>\<open>_, ok := m[k]\<close>: is the key present (whatever its value).\<close>

definition has_key :: "ymap \<Rightarrow> string \<Rightarrow> bool" where
  "has_key m k = (map_of m k \<noteq> None)"

text \<open>The comma-ok type assertions \<open>v.(T)\<close>: \<open>None\<close> is \<open>ok = false\<close>.\<close>

fun as_map :: "yvalue \<Rightarrow> ymap option" where
  "as_map (VMap m) = Some m"
| "as_map _ = None"

fun as_slice :: "yvalue \<Rightarrow> yvalue list option" where
  "as_slice (VSlice xs) = Some xs"
| "as_slice _ = None"

fun as_bool :: "yvalue \<Rightarrow> bool option" where
  "as_bool (VBool b) = Some b"
| "as_bool _ = None"

fun as_int :: "yvalue \<Rightarrow> int option" where
  "as_int (VInt i) = Some i"
| "as_int _ = None"

fun as_string :: "yvalue \<Rightarrow> string option" where
  "as_string (VString s) = Some s"
| "as_string _ = None"

record Metadata =
  Name :: string
  Namespace :: string
  Labels :: "(string \<times> string) list"
  Annotations :: "(string \<times> string) list"

record parser_Rule =
  APIGroups :: "string list"
  Resources :: "string list"
  Verbs :: "string list"

record RoleRef =
  RAPIGroup :: string
  RKind :: string
  RName :: string

record Subject =
  SKind :: string
  SName :: string
  SNamespace :: string

record K8sResource =
  APIVersion :: string
  Kind :: string
  Metadata :: Metadata
  Spec :: ymap
  Rules :: "parser_Rule list"
  RoleRef :: "RoleRef option"
  Subjects :: "Subject list"
  Raw :: ymap

definition supported :: "(string \<times> bool) list" where
  "supported =
    [(''Pod'', True), (''Deployment'', True), (''StatefulSet'', True), (''DaemonSet'', True),
     (''Job'', True), (''CronJob'', True), (''Service'', True), (''Role'', True),
     (''ClusterRole'', True), (''RoleBinding'', True), (''ClusterRoleBinding'', True)]"

definition IsSupportedKind :: "string \<Rightarrow> bool" where
  "IsSupportedKind kind = (case map_of supported kind of Some b \<Rightarrow> b | None \<Rightarrow> False)"

text \<open>The CronJob branch of \<open>GetPodSpec\<close> (the last \<open>if\<close> of the function and its final
  \<open>return nil, false\<close>).\<close>

definition GetPodSpec_jobTemplate :: "K8sResource \<Rightarrow> ymap option" where
  "GetPodSpec_jobTemplate resource =
    (case as_map (index (Spec resource) ''jobTemplate'') of
       None \<Rightarrow> None
     | Some jobTemplate \<Rightarrow>
        (case as_map (index jobTemplate ''spec'') of
           None \<Rightarrow> None
         | Some spec \<Rightarrow>
            (case as_map (index spec ''template'') of
               None \<Rightarrow> None
             | Some template \<Rightarrow>
                (case as_map (index template ''spec'') of
                   None \<Rightarrow> None
                 | Some podSpec \<Rightarrow> Some podSpec))))"

text \<open>\<open>GetPodSpec\<close> returns \<open>(spec, true)\<close> as \<open>Some spec\<close> and \<open>(nil, false)\<close> as
  \<open>None\<close>.\<close>

definition GetPodSpec :: "K8sResource \<Rightarrow> ymap option" where
  "GetPodSpec resource =
    (if Kind resource = ''Pod'' then Some (Spec resource)
     else
      (case as_map (index (Spec resource) ''template'') of
         None \<Rightarrow> GetPodSpec_jobTemplate resource
       | Some template \<Rightarrow>
          (case as_map (index template ''spec'') of
             None \<Rightarrow> GetPodSpec_jobTemplate resource
           | Some spec \<Rightarrow> Some spec)))"

section \<open>Findings (package types)\<close>

type_synonym Severity = string

definition High :: Severity where
  "High = ''HIGH''"

definition Medium :: Severity where
  "Medium = ''MEDIUM''"

record Finding =
  RuleID :: string
  Severity :: Severity
  FKind :: string
  FName :: string
  FNamespace :: string
  Reason :: string
  Impact :: string
  Fix :: string

record ScanResult =
  Findings :: "Finding list"

record Summary =
  SummaryHigh :: int
  SummaryMedium :: int
  ResourcesAffected :: int
  NamespacesAffected :: int

record ScanOptions =
  IncludeMedium :: bool
  OutputFormat :: string

type_synonym ExitCode = int

definition ExitOK :: ExitCode where
  "ExitOK = 0"

definition ExitMedium :: ExitCode where
  "ExitMedium = 1"

definition ExitHigh :: ExitCode where
  "ExitHigh = 2"

definition ExitError :: ExitCode where
  "ExitError = 3"

section \<open>The rules (package rules)\<close>

text \<open>The functions of Go's \<open>strings\<close> package that the rules call, on byte strings.\<close>

definition strings_HasPrefix :: "string \<Rightarrow> string \<Rightarrow> bool" where
  "strings_HasPrefix s p = (take (length p) s = p)"

definition strings_HasSuffix :: "string \<Rightarrow> string \<Rightarrow> bool" where
  "strings_HasSuffix s p = (length p \<le> length s \<and> drop (length s - length p) s = p)"

fun strings_Contains :: "string \<Rightarrow> string \<Rightarrow> bool" where
  "strings_Contains [] sub = (sub = [])"
| "strings_Contains (c # cs) sub = (strings_HasPrefix (c # cs) sub \<or> strings_Contains cs sub)"

type_synonym Rule = "K8sResource \<Rightarrow> Finding list"

text \<open>Every rule builds its finding from the resource's kind, name and namespace and the
  rule's own constants.\<close>

definition mkFinding ::
  "string \<Rightarrow> Severity \<Rightarrow> K8sResource \<Rightarrow> string \<Rightarrow> string \<Rightarrow> string \<Rightarrow> Finding" where
  "mkFinding ruleID sev resource reason impact fix =
    \<lparr>RuleID = ruleID, Severity = sev, FKind = Kind resource,
     FName = Name (Metadata resource), FNamespace = Namespace (Metadata resource),
     Reason = reason, Impact = impact, Fix = fix\<rparr>"

subsection \<open>Rule 1: privileged-container\<close>

definition privileged_finding :: "K8sResource \<Rightarrow> Finding" where
  "privileged_finding resource =
    mkFinding ''privileged-container'' High resource
      ''Container runs in privileged mode''
      ''Full host access if container is compromised''
      ''Remove privileged flag or set to false''"

fun privileged_loop :: "K8sResource \<Rightarrow> yvalue list \<Rightarrow> Finding list" where
  "privileged_loop resource [] = []"
| "privileged_loop resource (c # cs) =
    (case as_map c of
       None \<Rightarrow> privileged_loop resource cs
     | Some container \<Rightarrow>
        (case as_map (index container ''securityContext'') of
           None \<Rightarrow> privileged_loop resource cs
         | Some securityContext \<Rightarrow>
            (case as_bool (index securityContext ''privileged'') of
               Some True \<Rightarrow> [privileged_finding resource]
             | _ \<Rightarrow> privileged_loop resource cs)))"

definition CheckPrivilegedContainer :: Rule where
  "CheckPrivilegedContainer resource =
    (case GetPodSpec resource of
       None \<Rightarrow> []
     | Some podSpec \<Rightarrow>
        (case as_slice (index podSpec ''containers'') of
           None \<Rightarrow> []
         | Some containers \<Rightarrow> privileged_loop resource containers))"

subsection \<open>Rule 2: hostpath-volume\<close>

definition hostPath_finding :: "K8sResource \<Rightarrow> Finding" where
  "hostPath_finding resource =
    mkFinding ''hostpath-volume'' High resource
      ''Uses hostPath volume mount''
      ''Direct filesystem access enables container escape''
      ''Use PersistentVolumes or emptyDir instead''"

fun hostPath_loop :: "K8sResource \<Rightarrow> yvalue list \<Rightarrow> Finding list" where
  "hostPath_loop resource [] = []"
| "hostPath_loop resource (v # vs) =
    (case as_map v of
       None \<Rightarrow> hostPath_loop resource vs
     | Some volume \<Rightarrow>
        (if has_key volume ''hostPath'' then [hostPath_finding resource]
         else hostPath_loop resource vs))"

definition CheckHostPath :: Rule where
  "CheckHostPath resource =
    (case GetPodSpec resource of
       None \<Rightarrow> []
     | Some podSpec \<Rightarrow>
        (case as_slice (index podSpec ''volumes'') of
           None \<Rightarrow> []
         | Some volumes \<Rightarrow> hostPath_loop resource volumes))"

subsection \<open>Rule 3: docker-socket-mount\<close>

definition dockerSocket_finding :: "K8sResource \<Rightarrow> Finding" where
  "dockerSocket_finding resource =
    mkFinding ''docker-socket-mount'' High resource
      ''Mounts Docker socket from host''
      ''Grants root-equivalent access to the node''
      ''Remove Docker socket mount''"

fun dockerSocket_loop :: "K8sResource \<Rightarrow> yvalue list \<Rightarrow> Finding list" where
  "dockerSocket_loop resource [] = []"
| "dockerSocket_loop resource (v # vs) =
    (case as_map v of
       None \<Rightarrow> dockerSocket_loop resource vs
     | Some volume \<Rightarrow>
        (case as_map (index volume ''hostPath'') of
           None \<Rightarrow> dockerSocket_loop resource vs
         | Some hostPath \<Rightarrow>
            (case as_string (index hostPath ''path'') of
               None \<Rightarrow> dockerSocket_loop resource vs
             | Some path \<Rightarrow>
                (if strings_Contains path ''/var/run/docker.sock''
                 then [dockerSocket_finding resource]
                 else dockerSocket_loop resource vs))))"

definition CheckDockerSocket :: Rule where
  "CheckDockerSocket resource =
    (case GetPodSpec resource of
       None \<Rightarrow> []
     | Some podSpec \<Rightarrow>
        (case as_slice (index podSpec ''volumes'') of
           None \<Rightarrow> []
         | Some volumes \<Rightarrow> dockerSocket_loop resource volumes))"

subsection \<open>Rule 4: runs-as-root\<close>

definition runsAsRoot_finding :: "K8sResource \<Rightarrow> Finding" where
  "runsAsRoot_finding resource =
    mkFinding ''runs-as-root'' Medium resource
      ''Container runs as root user (UID 0)''
      ''Increases blast radius of container compromise''
      ''Set runAsNonRoot: true or runAsUser to non-zero UID''"

text \<open>The loop over the containers; \<open>podRunAsNonRoot\<close> and \<open>podRunAsUser\<close> are the two
  locals computed from the pod-level securityContext before the loop.\<close>

fun runsAsRoot_loop :: "K8sResource \<Rightarrow> bool \<Rightarrow> int \<Rightarrow> yvalue list \<Rightarrow> Finding list" where
  "runsAsRoot_loop resource podRunAsNonRoot podRunAsUser [] = []"
| "runsAsRoot_loop resource podRunAsNonRoot podRunAsUser (c # cs) =
    (case as_map c of
       None \<Rightarrow> runsAsRoot_loop resource podRunAsNonRoot podRunAsUser cs
     | Some container \<Rightarrow>
        (case as_map (index container ''securityContext'') of
           None \<Rightarrow>
            (if \<not> podRunAsNonRoot \<and> podRunAsUser \<noteq> 0 then [runsAsRoot_finding resource]
             else runsAsRoot_loop resource podRunAsNonRoot podRunAsUser cs)
         | Some securityContext \<Rightarrow>
            (let runAsNonRoot =
                   (case as_bool (index securityContext ''runAsNonRoot'') of
                      Some val \<Rightarrow> val | None \<Rightarrow> podRunAsNonRoot);
                 runAsUser =
                   (case as_int (index securityContext ''runAsUser'') of
                      Some val \<Rightarrow> val | None \<Rightarrow> podRunAsUser)
             in if \<not> runAsNonRoot \<and> (runAsUser = 0 \<or> runAsUser = - 1)
                then [runsAsRoot_finding resource]
                else runsAsRoot_loop resource podRunAsNonRoot podRunAsUser cs)))"

definition pod_runAsNonRoot :: "ymap \<Rightarrow> bool" where
  "pod_runAsNonRoot podSpec =
    (case as_map (index podSpec ''securityContext'') of
       None \<Rightarrow> False
     | Some podSecurityContext \<Rightarrow>
        (case as_bool (index podSecurityContext ''runAsNonRoot'') of
           Some True \<Rightarrow> True
         | _ \<Rightarrow> False))"

definition pod_runAsUser :: "ymap \<Rightarrow> int" where
  "pod_runAsUser podSpec =
    (case as_map (index podSpec ''securityContext'') of
       None \<Rightarrow> - 1
     | Some podSecurityContext \<Rightarrow>
        (case as_int (index podSecurityContext ''runAsUser'') of
           Some runAsUser \<Rightarrow> runAsUser
         | None \<Rightarrow> - 1))"

definition CheckRunsAsRoot :: Rule where
  "CheckRunsAsRoot resource =
    (case GetPodSpec resource of
       None \<Rightarrow> []
     | Some podSpec \<Rightarrow>
        (let podRunAsNonRoot = pod_runAsNonRoot podSpec;
             podRunAsUser = pod_runAsUser podSpec
         in case as_slice (index podSpec ''containers'') of
              None \<Rightarrow> []
            | Some containers \<Rightarrow>
                runsAsRoot_loop resource podRunAsNonRoot podRunAsUser containers))"

subsection \<open>Rule 5: privilege-escalation-allowed\<close>

definition privilegeEscalation_finding :: "K8sResource \<Rightarrow> Finding" where
  "privilegeEscalation_finding resource =
    mkFinding ''privilege-escalation-allowed'' High resource
      ''Allows privilege escalation within container''
      ''Enables container escape via kernel exploits''
      ''Set allowPrivilegeEscalation: false''"

fun privilegeEscalation_loop :: "K8sResource \<Rightarrow> yvalue list \<Rightarrow> Finding list" where
  "privilegeEscalation_loop resource [] = []"
| "privilegeEscalation_loop resource (c # cs) =
    (case as_map c of
       None \<Rightarrow> privilegeEscalation_loop resource cs
     | Some container \<Rightarrow>
        (case as_map (index container ''securityContext'') of
           None \<Rightarrow> privilegeEscalation_loop resource cs
         | Some securityContext \<Rightarrow>
            (case as_bool (index securityContext ''allowPrivilegeEscalation'') of
               Some True \<Rightarrow> [privilegeEscalation_finding resource]
             | _ \<Rightarrow> privilegeEscalation_loop resource cs)))"

definition CheckPrivilegeEscalation :: Rule where
  "CheckPrivilegeEscalation resource =
    (case GetPodSpec resource of
       None \<Rightarrow> []
     | Some podSpec \<Rightarrow>
        (case as_slice (index podSpec ''containers'') of
           None \<Rightarrow> []
         | Some containers \<Rightarrow> privilegeEscalation_loop resource containers))"

subsection \<open>Rule 6: wildcard-rbac\<close>

definition wildcardRBAC_finding :: "K8sResource \<Rightarrow> Finding" where
  "wildcardRBAC_finding resource =
    mkFinding ''wildcard-rbac'' High resource
      ''Grants wildcard permissions (verbs: *, resources: *)''
      ''Complete cluster control for any principal with this role''
      ''Specify explicit verbs and resources''"

text \<open>The two inner loops set a flag and \<open>break\<close> at the first \<open>"*"\<close>.\<close>

fun has_wildcard :: "string list \<Rightarrow> bool" where
  "has_wildcard [] = False"
| "has_wildcard (x # xs) = (if x = ''*'' then True else has_wildcard xs)"

fun wildcardRBAC_loop :: "K8sResource \<Rightarrow> parser_Rule list \<Rightarrow> Finding list" where
  "wildcardRBAC_loop resource [] = []"
| "wildcardRBAC_loop resource (rule # rest) =
    (let hasWildcardVerbs = has_wildcard (Verbs rule);
         hasWildcardResources = has_wildcard (Resources rule)
     in if hasWildcardVerbs \<and> hasWildcardResources then [wildcardRBAC_finding resource]
        else wildcardRBAC_loop resource rest)"

definition CheckWildcardRBAC :: Rule where
  "CheckWildcardRBAC resource =
    (if Kind resource \<noteq> ''Role'' \<and> Kind resource \<noteq> ''ClusterRole'' then []
     else wildcardRBAC_loop resource (Rules resource))"

subsection \<open>Rule 7: clusterrolebinding-default-sa\<close>

definition defaultSA_finding :: "K8sResource \<Rightarrow> Finding" where
  "defaultSA_finding resource =
    mkFinding ''clusterrolebinding-default-sa'' High resource
      ''Binds permissions to default service account''
      ''All pods without explicit SA inherit these permissions''
      ''Create and use a dedicated ServiceAccount''"

fun defaultSA_loop :: "K8sResource \<Rightarrow> Subject list \<Rightarrow> Finding list" where
  "defaultSA_loop resource [] = []"
| "defaultSA_loop resource (subject # rest) =
    (if SKind subject = ''ServiceAccount'' \<and> SName subject = ''default''
     then [defaultSA_finding resource]
     else defaultSA_loop resource rest)"

definition CheckClusterRoleBindingDefaultSA :: Rule where
  "CheckClusterRoleBindingDefaultSA resource =
    (if Kind resource \<noteq> ''ClusterRoleBinding'' \<and> Kind resource \<noteq> ''RoleBinding'' then []
     else defaultSA_loop resource (Subjects resource))"

subsection \<open>Rule 8: public-loadbalancer\<close>

definition sensitiveNamespaces :: "(string \<times> bool) list" where
  "sensitiveNamespaces = [(''kube-system'', True), (''prod'', True), (''production'', True)]"

definition publicLoadBalancer_finding :: "K8sResource \<Rightarrow> Finding" where
  "publicLoadBalancer_finding resource =
    mkFinding ''public-loadbalancer'' High resource
      (''LoadBalancer service in '' @ Namespace (Metadata resource) @ '' namespace'')
      ''Exposes internal services directly to the internet''
      ''Use ClusterIP with Ingress, or add explicit justification''"

definition CheckPublicLoadBalancer :: Rule where
  "CheckPublicLoadBalancer resource =
    (if Kind resource \<noteq> ''Service'' then []
     else if \<not> (case map_of sensitiveNamespaces (Namespace (Metadata resource)) of
                   Some b \<Rightarrow> b | None \<Rightarrow> False) then []
     else
      (case as_string (index (Spec resource) ''type'') of
         None \<Rightarrow> []
       | Some svcType \<Rightarrow>
          (if svcType = ''LoadBalancer'' then [publicLoadBalancer_finding resource] else [])))"

subsection \<open>Rule 9: nodeport-service\<close>

definition nodePort_finding :: "K8sResource \<Rightarrow> Finding" where
  "nodePort_finding resource =
    mkFinding ''nodeport-service'' Medium resource
      ''NodePort service without justification annotation''
      ''Bypasses ingress controls and exposes port on all nodes''
      ''Use ClusterIP/LoadBalancer or add annotation: danger-scan/nodeport-justified''"

definition CheckNodePort :: Rule where
  "CheckNodePort resource =
    (if Kind resource \<noteq> ''Service'' then []
     else
      (case as_string (index (Spec resource) ''type'') of
         None \<Rightarrow> []
       | Some svcType \<Rightarrow>
          (if svcType = ''NodePort'' then
             (if map_of (Annotations (Metadata resource)) ''danger-scan/nodeport-justified'' = None
              then [nodePort_finding resource] else [])
           else [])))"

subsection \<open>Rule 10: latest-image-tag\<close>

definition latestTag_finding :: "K8sResource \<Rightarrow> Finding" where
  "latestTag_finding resource =
    mkFinding ''latest-image-tag'' Medium resource
      ''Uses :latest or untagged image''
      ''Non-reproducible deployments and potential supply chain risk''
      ''Pin to specific image digest or semantic version''"

fun latestTag_loop :: "K8sResource \<Rightarrow> yvalue list \<Rightarrow> Finding list" where
  "latestTag_loop resource [] = []"
| "latestTag_loop resource (c # cs) =
    (case as_map c of
       None \<Rightarrow> latestTag_loop resource cs
     | Some container \<Rightarrow>
        (case as_string (index container ''image'') of
           None \<Rightarrow> latestTag_loop resource cs
         | Some img \<Rightarrow>
            (if strings_HasSuffix img '':latest'' \<or> \<not> strings_Contains img '':''
             then [latestTag_finding resource]
             else latestTag_loop resource cs)))"

definition CheckLatestTag :: Rule where
  "CheckLatestTag resource =
    (case GetPodSpec resource of
       None \<Rightarrow> []
     | Some podSpec \<Rightarrow>
        (case as_slice (index podSpec ''containers'') of
           None \<Rightarrow> []
         | Some containers \<Rightarrow> latestTag_loop resource containers))"

subsection \<open>Rule 11: host-network\<close>

definition hostNetwork_finding :: "K8sResource \<Rightarrow> Finding" where
  "hostNetwork_finding resource =
    mkFinding ''host-network'' High resource
      ''Uses host network namespace''
      ''Bypasses network policies and accesses host network''
      ''Remove hostNetwork or set to false''"

definition CheckHostNetwork :: Rule where
  "CheckHostNetwork resource =
    (case GetPodSpec resource of
       None \<Rightarrow> []
     | Some podSpec \<Rightarrow>
        (case as_bool (index podSpec ''hostNetwork'') of
           Some True \<Rightarrow> [hostNetwork_finding resource]
         | _ \<Rightarrow> []))"

subsection \<open>Rule 12: host-pid-ipc\<close>

definition hostPID_finding :: "K8sResource \<Rightarrow> Finding" where
  "hostPID_finding resource =
    mkFinding ''host-pid-ipc'' High resource
      ''Uses host PID namespace''
      ''Can inspect and kill processes on the host''
      ''Remove hostPID or set to false''"

definition hostIPC_finding :: "K8sResource \<Rightarrow> Finding" where
  "hostIPC_finding resource =
    mkFinding ''host-pid-ipc'' High resource
      ''Uses host IPC namespace''
      ''Can access shared memory and semaphores on host''
      ''Remove hostIPC or set to false''"

definition CheckHostPIDIPC :: Rule where
  "CheckHostPIDIPC resource =
    (case GetPodSpec resource of
       None \<Rightarrow> []
     | Some podSpec \<Rightarrow>
        (case as_bool (index podSpec ''hostPID'') of
           Some True \<Rightarrow> [hostPID_finding resource]
         | _ \<Rightarrow>
            (case as_bool (index podSpec ''hostIPC'') of
               Some True \<Rightarrow> [hostIPC_finding resource]
             | _ \<Rightarrow> [])))"

definition AllRules :: "Rule list" where
  "AllRules =
    [CheckPrivilegedContainer, CheckHostPath, CheckDockerSocket, CheckRunsAsRoot,
     CheckPrivilegeEscalation, CheckWildcardRBAC, CheckClusterRoleBindingDefaultSA,
     CheckPublicLoadBalancer, CheckNodePort, CheckLatestTag, CheckHostNetwork,
     CheckHostPIDIPC]"

section \<open>The scanner (package scanner)\<close>

record Scanner =
  rules :: "Rule list"
  options :: ScanOptions

definition NewScanner :: "ScanOptions \<Rightarrow> Scanner" where
  "NewScanner opts = \<lparr>rules = AllRules, options = opts\<rparr>"

text \<open>The inner loop of \<open>Scan\<close>: each rule's findings are appended to \<open>findings\<close>.\<close>

fun apply_rules :: "Rule list \<Rightarrow> K8sResource \<Rightarrow> Finding list \<Rightarrow> Finding list" where
  "apply_rules [] resource findings = findings"
| "apply_rules (rule # rest) resource findings =
    apply_rules rest resource (findings @ rule resource)"

text \<open>The outer loop of \<open>Scan\<close>: a resource of an unsupported kind is skipped.\<close>

fun scan_loop :: "Rule list \<Rightarrow> K8sResource list \<Rightarrow> Finding list \<Rightarrow> Finding list" where
  "scan_loop rs [] findings = findings"
| "scan_loop rs (resource # rest) findings =
    (if \<not> IsSupportedKind (Kind resource) then scan_loop rs rest findings
     else scan_loop rs rest (apply_rules rs resource findings))"

fun filterHighOnly_loop :: "Finding list \<Rightarrow> Finding list \<Rightarrow> Finding list" where
  "filterHighOnly_loop [] filtered = filtered"
| "filterHighOnly_loop (f # fs) filtered =
    (if Severity f = High then filterHighOnly_loop fs (filtered @ [f])
     else filterHighOnly_loop fs filtered)"

definition filterHighOnly :: "Finding list \<Rightarrow> Finding list" where
  "filterHighOnly findings = filterHighOnly_loop findings []"

definition Scan :: "Scanner \<Rightarrow> K8sResource list \<Rightarrow> ScanResult" where
  "Scan s resources =
    (let findings = scan_loop (rules s) resources [];
         findings = (if \<not> IncludeMedium (options s) then filterHighOnly findings else findings)
     in \<lparr>Findings = findings\<rparr>)"

definition findingKey :: "Finding \<Rightarrow> string" where
  "findingKey f = RuleID f @ ''|'' @ FKind f @ ''|'' @ FName f @ ''|'' @ FNamespace f"

text \<open>A \<open>map[string]bool\<close> is an association list with distinct keys: \<open>m[k] = v\<close> is
  \<open>AList.update k v m\<close>, \<open>len(m)\<close> is the length of the list, and reading \<open>m[k]\<close> gives
  \<open>false\<close> for a missing key.\<close>

type_synonym boolmap = "(string \<times> bool) list"

definition lookup_bool :: "boolmap \<Rightarrow> string \<Rightarrow> bool" where
  "lookup_bool m k = (case map_of m k of Some b \<Rightarrow> b | None \<Rightarrow> False)"

fun oldFindingsSet_loop :: "Finding list \<Rightarrow> boolmap \<Rightarrow> boolmap" where
  "oldFindingsSet_loop [] oldFindingsSet = oldFindingsSet"
| "oldFindingsSet_loop (f # fs) oldFindingsSet =
    oldFindingsSet_loop fs (AList.update (findingKey f) True oldFindingsSet)"

fun diff_loop :: "boolmap \<Rightarrow> Finding list \<Rightarrow> Finding list \<Rightarrow> Finding list" where
  "diff_loop oldFindingsSet [] diffFindings = diffFindings"
| "diff_loop oldFindingsSet (f # fs) diffFindings =
    (if \<not> lookup_bool oldFindingsSet (findingKey f)
     then diff_loop oldFindingsSet fs (diffFindings @ [f])
     else diff_loop oldFindingsSet fs diffFindings)"

definition Diff :: "Scanner \<Rightarrow> K8sResource list \<Rightarrow> K8sResource list \<Rightarrow> ScanResult" where
  "Diff s oldResources newResources =
    (let oldFindings = Findings (Scan s oldResources);
         newFindings = Findings (Scan s newResources);
         oldFindingsSet = oldFindingsSet_loop oldFindings []
     in \<lparr>Findings = diff_loop oldFindingsSet newFindings []\<rparr>)"

text \<open>The loop of \<open>GetSummary\<close> over the state \<open>(summary, resourceSet, namespaceSet)\<close>;
  the \<open>switch\<close> counts a severity that is neither \<open>High\<close> nor \<open>Medium\<close> nowhere.\<close>

fun GetSummary_loop ::
  "Finding list \<Rightarrow> Summary \<times> boolmap \<times> boolmap \<Rightarrow> Summary \<times> boolmap \<times> boolmap" where
  "GetSummary_loop [] st = st"
| "GetSummary_loop (f # fs) (summary, resourceSet, namespaceSet) =
    (let summary' =
           (if Severity f = High then summary\<lparr>SummaryHigh := SummaryHigh summary + 1\<rparr>
            else if Severity f = Medium then summary\<lparr>SummaryMedium := SummaryMedium summary + 1\<rparr>
            else summary);
         resourceKey = FKind f @ ''/'' @ FName f;
         resourceSet' = AList.update resourceKey True resourceSet;
         namespaceSet' =
           (if FNamespace f \<noteq> [] then AList.update (FNamespace f) True namespaceSet
            else namespaceSet)
     in GetSummary_loop fs (summary', resourceSet', namespaceSet'))"

definition GetSummary :: "Finding list \<Rightarrow> Summary" where
  "GetSummary findings =
    (case GetSummary_loop findings
            (\<lparr>SummaryHigh = 0, SummaryMedium = 0, ResourcesAffected = 0, NamespacesAffected = 0\<rparr>,
             [], []) of
       (summary, resourceSet, namespaceSet) \<Rightarrow>
         summary\<lparr>ResourcesAffected := int (length resourceSet),
                 NamespacesAffected := int (length namespaceSet)\<rparr>)"

text \<open>The loop of \<open>GetExitCode\<close> over the two flags \<open>(hasHigh, hasMedium)\<close>.\<close>

fun GetExitCode_loop :: "Finding list \<Rightarrow> bool \<times> bool \<Rightarrow> bool \<times> bool" where
  "GetExitCode_loop [] st = st"
| "GetExitCode_loop (f # fs) (hasHigh, hasMedium) =
    (if Severity f = High then GetExitCode_loop fs (True, hasMedium)
     else if Severity f = Medium then GetExitCode_loop fs (hasHigh, True)
     else GetExitCode_loop fs (hasHigh, hasMedium))"

definition GetExitCode :: "Finding list \<Rightarrow> ExitCode" where
  "GetExitCode findings =
    (case GetExitCode_loop findings (False, False) of
       (hasHigh, hasMedium) \<Rightarrow>
         if hasHigh then ExitHigh else if hasMedium then ExitMedium else ExitOK)"

section \<open>Notions the claims are stated with\<close>

text \<open>The trigger of rule 1 on one element of \<open>containers\<close>: the three type assertions
  of the loop body succeed and \<open>privileged\<close> is \<open>true\<close>.\<close>

definition container_privileged :: "yvalue \<Rightarrow> bool" where
  "container_privileged c =
    (case as_map c of
       None \<Rightarrow> False
     | Some container \<Rightarrow>
        (case as_map (index container ''securityContext'') of
           None \<Rightarrow> False
         | Some securityContext \<Rightarrow> as_bool (index securityContext ''privileged'') = Some True))"

text \<open>The subtree of a mapping at a path of keys, when every step is a mapping (the
  specification's "nested at \<open>spec.template.spec\<close>").\<close>

fun subtree_at :: "ymap \<Rightarrow> string list \<Rightarrow> ymap option" where
  "subtree_at m [] = Some m"
| "subtree_at m (k # ks) =
    (case as_map (index m k) of None \<Rightarrow> None | Some m' \<Rightarrow> subtree_at m' ks)"

text \<open>The identity tuple of a finding, and the diff the specification describes: the
  findings of the new scan whose identity tuple is that of no finding of the old scan.\<close>

definition identity :: "Finding \<Rightarrow> string \<times> string \<times> string \<times> string" where
  "identity f = (RuleID f, FKind f, FName f, FNamespace f)"

definition Diff_by_identity :: "Scanner \<Rightarrow> K8sResource list \<Rightarrow> K8sResource list \<Rightarrow> Finding list" where
  "Diff_by_identity s oldResources newResources =
    filter (\<lambda>f. identity f \<notin> identity ` set (Findings (Scan s oldResources)))
           (Findings (Scan s newResources))"

text \<open>Rule 4 as claim C1 words it: the effective value of a field is the container-level
  one when it is set with the right type, otherwise the pod-level one; a container runs as
  root when its effective \<open>runAsNonRoot\<close> is false or absent and its effective
  \<open>runAsUser\<close> is 0 or unset; the rule has a finding when some container does.\<close>

definition securityContext_of :: "ymap \<Rightarrow> ymap" where
  "securityContext_of m =
    (case as_map (index m ''securityContext'') of Some sc \<Rightarrow> sc | None \<Rightarrow> [])"

definition effective_runAsNonRoot :: "ymap \<Rightarrow> ymap \<Rightarrow> bool option" where
  "effective_runAsNonRoot podSpec container =
    (case as_bool (index (securityContext_of container) ''runAsNonRoot'') of
       Some b \<Rightarrow> Some b
     | None \<Rightarrow> as_bool (index (securityContext_of podSpec) ''runAsNonRoot''))"

definition effective_runAsUser :: "ymap \<Rightarrow> ymap \<Rightarrow> int option" where
  "effective_runAsUser podSpec container =
    (case as_int (index (securityContext_of container) ''runAsUser'') of
       Some u \<Rightarrow> Some u
     | None \<Rightarrow> as_int (index (securityContext_of podSpec) ''runAsUser''))"

definition claimed_container_runs_as_root :: "ymap \<Rightarrow> yvalue \<Rightarrow> bool" where
  "claimed_container_runs_as_root podSpec c =
    (case as_map c of
       None \<Rightarrow> False
     | Some container \<Rightarrow>
        effective_runAsNonRoot podSpec container \<noteq> Some True
        \<and> (effective_runAsUser podSpec container = Some 0
           \<or> effective_runAsUser podSpec container = None))"

definition claimed_runs_as_root :: "K8sResource \<Rightarrow> bool" where
  "claimed_runs_as_root resource =
    (case GetPodSpec resource of
       None \<Rightarrow> False
     | Some podSpec \<Rightarrow>
        (case as_slice (index podSpec ''containers'') of
           None \<Rightarrow> False
         | Some containers \<Rightarrow> list_ex (claimed_container_runs_as_root podSpec) containers))"

text \<open>A container element that has a securityContext mapping (or is no mapping at all and
  is skipped by the loop).\<close>

definition has_securityContext :: "yvalue \<Rightarrow> bool" where
  "has_securityContext c =
    (case as_map c of None \<Rightarrow> True
     | Some container \<Rightarrow> as_map (index container ''securityContext'') \<noteq> None)"

text \<open>Pod-spec extraction as claim C2 words it, a dispatch on the kind: the spec root for
  Pod, the subtree at \<open>spec.template.spec\<close> for Deployment, StatefulSet, DaemonSet and Job,
  the subtree at \<open>spec.jobTemplate.spec.template.spec\<close> for CronJob, and no pod spec for
  every other kind.\<close>

definition claimed_GetPodSpec :: "K8sResource \<Rightarrow> ymap option" where
  "claimed_GetPodSpec resource =
    (if Kind resource = ''Pod'' then Some (Spec resource)
     else if Kind resource \<in> {''Deployment'', ''StatefulSet'', ''DaemonSet'', ''Job''}
       then subtree_at (Spec resource) [''template'', ''spec'']
     else if Kind resource = ''CronJob''
       then subtree_at (Spec resource) [''jobTemplate'', ''spec'', ''template'', ''spec'']
     else None)"

text \<open>The triggers of the other rules that scan a sequence, each the condition under which
  the loop body of the rule returns its finding at one element: a volume with a \<open>hostPath\<close>
  key (rule 2), a volume whose \<open>hostPath.path\<close> contains the Docker socket path (rule 3),
  a container that rule 4 takes to run as root given the two pod-level locals, a container
  that allows privilege escalation (rule 5), a container with a \<open>:latest\<close> or untagged
  image (rule 10), an RBAC rule entry with wildcard verbs and resources (rule 6), and a
  subject that is the default service account (rule 7).\<close>

definition volume_hostPath :: "yvalue \<Rightarrow> bool" where
  "volume_hostPath v =
    (case as_map v of None \<Rightarrow> False | Some volume \<Rightarrow> has_key volume ''hostPath'')"

definition volume_dockerSocket :: "yvalue \<Rightarrow> bool" where
  "volume_dockerSocket v =
    (case as_map v of
       None \<Rightarrow> False
     | Some volume \<Rightarrow>
        (case as_map (index volume ''hostPath'') of
           None \<Rightarrow> False
         | Some hostPath \<Rightarrow>
            (case as_string (index hostPath ''path'') of
               None \<Rightarrow> False
             | Some path \<Rightarrow> strings_Contains path ''/var/run/docker.sock'')))"

definition container_runsAsRoot :: "bool \<Rightarrow> int \<Rightarrow> yvalue \<Rightarrow> bool" where
  "container_runsAsRoot podRunAsNonRoot podRunAsUser c =
    (case as_map c of
       None \<Rightarrow> False
     | Some container \<Rightarrow>
        (case as_map (index container ''securityContext'') of
           None \<Rightarrow> \<not> podRunAsNonRoot \<and> podRunAsUser \<noteq> 0
         | Some securityContext \<Rightarrow>
            \<not> (case as_bool (index securityContext ''runAsNonRoot'') of
                  Some val \<Rightarrow> val | None \<Rightarrow> podRunAsNonRoot)
            \<and> (case as_int (index securityContext ''runAsUser'') of
                  Some val \<Rightarrow> val | None \<Rightarrow> podRunAsUser) \<in> {0, - 1}))"

definition container_privilegeEscalation :: "yvalue \<Rightarrow> bool" where
  "container_privilegeEscalation c =
    (case as_map c of
       None \<Rightarrow> False
     | Some container \<Rightarrow>
        (case as_map (index container ''securityContext'') of
           None \<Rightarrow> False
         | Some securityContext \<Rightarrow>
            as_bool (index securityContext ''allowPrivilegeEscalation'') = Some True))"

definition container_latestTag :: "yvalue \<Rightarrow> bool" where
  "container_latestTag c =
    (case as_map c of
       None \<Rightarrow> False
     | Some container \<Rightarrow>
        (case as_string (index container ''image'') of
           None \<Rightarrow> False
         | Some img \<Rightarrow> strings_HasSuffix img '':latest'' \<or> \<not> strings_Contains img '':''))"

definition rule_wildcard :: "parser_Rule \<Rightarrow> bool" where
  "rule_wildcard rule = (''*'' \<in> set (Verbs rule) \<and> ''*'' \<in> set (Resources rule))"

definition subject_defaultSA :: "Subject \<Rightarrow> bool" where
  "subject_defaultSA subject = (SKind subject = ''ServiceAccount'' \<and> SName subject = ''default'')"

text \<open>The pod spec a rule works on, and the sequences it scans: empty when \<open>GetPodSpec\<close>
  reports no pod spec or the entry is not a sequence.\<close>

definition podSpec_of :: "K8sResource \<Rightarrow> ymap" where
  "podSpec_of r = (case GetPodSpec r of None \<Rightarrow> [] | Some podSpec \<Rightarrow> podSpec)"

definition containers_of :: "K8sResource \<Rightarrow> yvalue list" where
  "containers_of r =
    (case GetPodSpec r of
       None \<Rightarrow> []
     | Some podSpec \<Rightarrow>
        (case as_slice (index podSpec ''containers'') of None \<Rightarrow> [] | Some cs \<Rightarrow> cs))"

definition volumes_of :: "K8sResource \<Rightarrow> yvalue list" where
  "volumes_of r =
    (case GetPodSpec r of
       None \<Rightarrow> []
     | Some podSpec \<Rightarrow>
        (case as_slice (index podSpec ''volumes'') of None \<Rightarrow> [] | Some vs \<Rightarrow> vs))"

text \<open>Removing the wrongly-typed values. The rules read a key of a mapping with a type
  assertion for one type; a schema gives that type for the keys read in one mapping.
  \<open>drop_mistyped\<close> removes every key of the schema whose value fails its assertion,
  \<open>at_key\<close> rewrites the value under a key, \<open>in_map\<close> and \<open>in_slice\<close> rewrite inside a
  mapping and a sequence and leave every other value alone, and \<open>scrub_elements\<close> removes
  the elements of a sequence that are not mappings and rewrites the others.\<close>

datatype ytype = TBool | TInt | TString | TSlice | TMap

fun has_type :: "ytype \<Rightarrow> yvalue \<Rightarrow> bool" where
  "has_type TBool v = (as_bool v \<noteq> None)"
| "has_type TInt v = (as_int v \<noteq> None)"
| "has_type TString v = (as_string v \<noteq> None)"
| "has_type TSlice v = (as_slice v \<noteq> None)"
| "has_type TMap v = (as_map v \<noteq> None)"

definition drop_mistyped :: "(string \<times> ytype) list \<Rightarrow> ymap \<Rightarrow> ymap" where
  "drop_mistyped schema m =
    filter (\<lambda>(k, v). case map_of schema k of None \<Rightarrow> True | Some t \<Rightarrow> has_type t (index m k)) m"

definition at_key :: "string \<Rightarrow> (yvalue \<Rightarrow> yvalue) \<Rightarrow> ymap \<Rightarrow> ymap" where
  "at_key k f m = map (\<lambda>(k', v). (k', if k' = k then f v else v)) m"

definition in_map :: "(ymap \<Rightarrow> ymap) \<Rightarrow> yvalue \<Rightarrow> yvalue" where
  "in_map f v = (case v of VMap m \<Rightarrow> VMap (f m) | _ \<Rightarrow> v)"

definition in_slice :: "(yvalue list \<Rightarrow> yvalue list) \<Rightarrow> yvalue \<Rightarrow> yvalue" where
  "in_slice f v = (case v of VSlice xs \<Rightarrow> VSlice (f xs) | _ \<Rightarrow> v)"

definition scrub_elements :: "(ymap \<Rightarrow> ymap) \<Rightarrow> yvalue list \<Rightarrow> yvalue list" where
  "scrub_elements f xs = map (in_map f) (filter (\<lambda>x. as_map x \<noteq> None) xs)"

text \<open>The positions the rules read with a type assertion, mapping by mapping: a
  securityContext, a container, a volume's \<open>hostPath\<close>, a volume, the pod spec, and the
  path from the spec of a resource to its pod spec, with the service \<open>type\<close>.\<close>

definition scrub_securityContext :: "ymap \<Rightarrow> ymap" where
  "scrub_securityContext =
    drop_mistyped [(''privileged'', TBool), (''allowPrivilegeEscalation'', TBool),
                   (''runAsNonRoot'', TBool), (''runAsUser'', TInt)]"

definition scrub_container :: "ymap \<Rightarrow> ymap" where
  "scrub_container container =
    at_key ''securityContext'' (in_map scrub_securityContext)
      (drop_mistyped [(''securityContext'', TMap), (''image'', TString)] container)"

definition scrub_hostPath :: "ymap \<Rightarrow> ymap" where
  "scrub_hostPath = drop_mistyped [(''path'', TString)]"

definition scrub_volume :: "ymap \<Rightarrow> ymap" where
  "scrub_volume volume =
    at_key ''hostPath'' (in_map scrub_hostPath) (drop_mistyped [(''hostPath'', TMap)] volume)"

definition scrub_podSpec :: "ymap \<Rightarrow> ymap" where
  "scrub_podSpec podSpec =
    at_key ''containers'' (in_slice (scrub_elements scrub_container))
      (at_key ''volumes'' (in_slice (scrub_elements scrub_volume))
        (at_key ''securityContext'' (in_map scrub_securityContext)
          (drop_mistyped
            [(''containers'', TSlice), (''volumes'', TSlice), (''securityContext'', TMap),
             (''hostNetwork'', TBool), (''hostPID'', TBool), (''hostIPC'', TBool)] podSpec)))"

definition scrub_template :: "ymap \<Rightarrow> ymap" where
  "scrub_template template =
    at_key ''spec'' (in_map scrub_podSpec) (drop_mistyped [(''spec'', TMap)] template)"

definition scrub_jobSpec :: "ymap \<Rightarrow> ymap" where
  "scrub_jobSpec spec =
    at_key ''template'' (in_map scrub_template) (drop_mistyped [(''template'', TMap)] spec)"

definition scrub_jobTemplate :: "ymap \<Rightarrow> ymap" where
  "scrub_jobTemplate jobTemplate =
    at_key ''spec'' (in_map scrub_jobSpec) (drop_mistyped [(''spec'', TMap)] jobTemplate)"

definition scrub_Spec :: "string \<Rightarrow> ymap \<Rightarrow> ymap" where
  "scrub_Spec kind spec =
    (if kind = ''Pod'' then scrub_podSpec spec
     else
      at_key ''template'' (in_map scrub_template)
        (at_key ''jobTemplate'' (in_map scrub_jobTemplate)
          (drop_mistyped
            [(''template'', TMap), (''jobTemplate'', TMap), (''type'', TString)] spec)))"

definition scrub_resource :: "K8sResource \<Rightarrow> K8sResource" where
  "scrub_resource r = r\<lparr>Spec := scrub_Spec (Kind r) (Spec r)\<rparr>"

section \<open>Example documents\<close>

text \<open>A resource as the parser builds it from a document with \<open>kind\<close>, \<open>metadata.name\<close>,
  \<open>metadata.namespace\<close> and \<open>spec\<close>; no rule reads \<open>Raw\<close>, which is left empty here.\<close>

definition mkResource :: "string \<Rightarrow> string \<Rightarrow> string \<Rightarrow> ymap \<Rightarrow> K8sResource" where
  "mkResource kind name ns spec =
    \<lparr>APIVersion = ''v1'', Kind = kind,
     Metadata = \<lparr>Name = name, Namespace = ns, Labels = [], Annotations = []\<rparr>,
     Spec = spec, Rules = [], RoleRef = None, Subjects = [], Raw = []\<rparr>"

text \<open>Pods whose only container has no securityContext, under a pod-level
  \<open>securityContext.runAsUser\<close> of 0 and of 1000; and the same two pods with an empty
  container-level securityContext.\<close>

definition pod_uid0_no_sc :: K8sResource where
  "pod_uid0_no_sc = mkResource ''Pod'' ''web'' ''default''
    [(''securityContext'', VMap [(''runAsUser'', VInt 0)]),
     (''containers'', VSlice [VMap [(''name'', VString ''app'')]])]"

definition pod_uid1000_no_sc :: K8sResource where
  "pod_uid1000_no_sc = mkResource ''Pod'' ''web'' ''default''
    [(''securityContext'', VMap [(''runAsUser'', VInt 1000)]),
     (''containers'', VSlice [VMap [(''name'', VString ''app'')]])]"

definition pod_uid0_empty_sc :: K8sResource where
  "pod_uid0_empty_sc = mkResource ''Pod'' ''web'' ''default''
    [(''securityContext'', VMap [(''runAsUser'', VInt 0)]),
     (''containers'', VSlice [VMap [(''name'', VString ''app''), (''securityContext'', VMap [])]])]"

definition pod_uid1000_empty_sc :: K8sResource where
  "pod_uid1000_empty_sc = mkResource ''Pod'' ''web'' ''default''
    [(''securityContext'', VMap [(''runAsUser'', VInt 1000)]),
     (''containers'', VSlice [VMap [(''name'', VString ''app''), (''securityContext'', VMap [])]])]"

text \<open>A Service whose spec carries a \<open>template.spec\<close> subtree with \<open>hostNetwork: true\<close>;
  a plain Service; a Deployment and a CronJob of the usual shape.\<close>

definition svc_with_template :: K8sResource where
  "svc_with_template = mkResource ''Service'' ''front'' ''default''
    [(''type'', VString ''ClusterIP''),
     (''template'', VMap [(''spec'', VMap [(''hostNetwork'', VBool True)])])]"

definition svc_plain :: K8sResource where
  "svc_plain = mkResource ''Service'' ''front'' ''default'' [(''type'', VString ''ClusterIP'')]"

definition deploy_hostnet :: K8sResource where
  "deploy_hostnet = mkResource ''Deployment'' ''api'' ''prod''
    [(''replicas'', VInt 2),
     (''template'', VMap [(''spec'', VMap [(''hostNetwork'', VBool True)])])]"

definition cronjob_hostnet :: K8sResource where
  "cronjob_hostnet = mkResource ''CronJob'' ''nightly'' ''prod''
    [(''schedule'', VString ''0 3 * * *''),
     (''jobTemplate'', VMap [(''spec'', VMap [(''template'',
        VMap [(''spec'', VMap [(''hostNetwork'', VBool True)])])])])]"

text \<open>Two privileged pods whose names and namespaces contain the key separator: name
  \<open>a|b\<close> in namespace \<open>c\<close>, and name \<open>a\<close> in namespace \<open>b|c\<close>. The container sets
  \<open>runAsNonRoot\<close> and pins its image, so that rule 1 is the only rule that fires.\<close>

definition privileged_spec :: ymap where
  "privileged_spec =
    [(''containers'', VSlice [VMap [(''name'', VString ''app''), (''image'', VString ''nginx:1.25''),
        (''securityContext'', VMap [(''privileged'', VBool True), (''runAsNonRoot'', VBool True)])]])]"

definition pod_pipe_old :: K8sResource where
  "pod_pipe_old = mkResource ''Pod'' ''a|b'' ''c'' privileged_spec"

definition pod_pipe_new :: K8sResource where
  "pod_pipe_new = mkResource ''Pod'' ''a'' ''b|c'' privileged_spec"

text \<open>A pod with two privileged containers that also sets \<open>hostPID\<close> and \<open>hostIPC\<close>;
  a pod whose \<open>containers\<close> and \<open>volumes\<close> are strings and whose host flags are not
  booleans.\<close>

definition pod_two_privileged :: K8sResource where
  "pod_two_privileged = mkResource ''Pod'' ''api'' ''prod''
    [(''hostPID'', VBool True), (''hostIPC'', VBool True),
     (''containers'', VSlice
        [VMap [(''name'', VString ''one''), (''securityContext'', VMap [(''privileged'', VBool True)])],
         VMap [(''name'', VString ''two''), (''securityContext'', VMap [(''privileged'', VBool True)])]])]"

definition pod_wrong_types :: K8sResource where
  "pod_wrong_types = mkResource ''Pod'' ''odd'' ''default''
    [(''containers'', VString ''none''), (''volumes'', VString ''none''),
     (''hostNetwork'', VString ''true''), (''hostPID'', VString ''true''),
     (''hostIPC'', VInt 1)]"

text \<open>Two findings whose kind and name differ but whose \<open>kind/name\<close> keys coincide.\<close>

definition finding_slash_a :: Finding where
  "finding_slash_a =
    \<lparr>RuleID = ''host-network'', Severity = High, FKind = ''a/b'', FName = ''c'',
     FNamespace = ''ns'', Reason = ''r'', Impact = ''i'', Fix = ''f''\<rparr>"

definition finding_slash_b :: Finding where
  "finding_slash_b =
    \<lparr>RuleID = ''host-network'', Severity = High, FKind = ''a'', FName = ''b/c'',
     FNamespace = ''ns'', Reason = ''r'', Impact = ''i'', Fix = ''f''\<rparr>"

text \<open>Four findings on three resources in two namespaces, one of them cluster-scoped.\<close>

definition clusterrole_admin :: K8sResource where
  "clusterrole_admin = mkResource ''ClusterRole'' ''admin'' '''' []"

definition example_findings :: "Finding list" where
  "example_findings =
    [privileged_finding pod_two_privileged, runsAsRoot_finding pod_two_privileged,
     hostNetwork_finding svc_with_template, wildcardRBAC_finding clusterrole_admin]"

text \<open>A Service in a sensitive namespace whose \<open>type\<close> is an integer.\<close>

definition svc_type_int :: K8sResource where
  "svc_type_int = mkResource ''Service'' ''front'' ''prod'' [(''type'', VInt 3)]"

text \<open>A pod with three volumes: an \<open>emptyDir\<close>, the Docker socket from the host, and
  \<open>/etc\<close> from the host.\<close>

definition pod_three_volumes :: K8sResource where
  "pod_three_volumes = mkResource ''Pod'' ''builder'' ''ci''
    [(''volumes'', VSlice
        [VMap [(''name'', VString ''scratch''), (''emptyDir'', VMap [])],
         VMap [(''name'', VString ''sock''),
               (''hostPath'', VMap [(''path'', VString ''/var/run/docker.sock'')])],
         VMap [(''name'', VString ''etc''), (''hostPath'', VMap [(''path'', VString ''/etc'')])]])]"

text \<open>A pod with a volume whose \<open>hostPath\<close> is an integer, and the same pod without the
  key.\<close>

definition pod_hostPath_int :: K8sResource where
  "pod_hostPath_int = mkResource ''Pod'' ''cache'' ''default''
    [(''volumes'', VSlice [VMap [(''name'', VString ''data''), (''hostPath'', VInt 42)]])]"

definition pod_hostPath_absent :: K8sResource where
  "pod_hostPath_absent = mkResource ''Pod'' ''cache'' ''default''
    [(''volumes'', VSlice [VMap [(''name'', VString ''data'')]])]"

text \<open>A pod with wrongly-typed values below the top of its spec, and the same pod without
  them.\<close>

definition pod_mistyped :: K8sResource where
  "pod_mistyped = mkResource ''Pod'' ''odd'' ''default''
    [(''hostNetwork'', VString ''true''),
     (''securityContext'', VMap [(''runAsUser'', VString ''0'')]),
     (''containers'', VSlice
        [VString ''app'',
         VMap [(''name'', VString ''app''), (''image'', VInt 3),
               (''securityContext'',
                VMap [(''privileged'', VString ''true''), (''allowPrivilegeEscalation'', VInt 1),
                      (''runAsNonRoot'', VString ''yes'')])]]),
     (''volumes'', VSlice
        [VMap [(''name'', VString ''data''), (''hostPath'', VMap [(''path'', VInt 7)])]])]"

definition pod_mistyped_scrubbed :: K8sResource where
  "pod_mistyped_scrubbed = mkResource ''Pod'' ''odd'' ''default''
    [(''securityContext'', VMap []),
     (''containers'', VSlice
        [VMap [(''name'', VString ''app''), (''securityContext'', VMap [])]]),
     (''volumes'', VSlice [VMap [(''name'', VString ''data''), (''hostPath'', VMap [])]])]"

section \<open>Properties of the scanner\<close>

subsection \<open>The loops in closed form\<close>

lemma High_neq_Medium: "High \<noteq> Medium"
  by (simp add: High_def Medium_def)

lemma apply_rules_eq:
  "apply_rules rs resource findings = findings @ concat (map (\<lambda>rule. rule resource) rs)"
  by (induction rs arbitrary: findings) simp_all

lemma scan_loop_eq:
  "scan_loop rs resources findings =
     findings @ concat (map (\<lambda>r. concat (map (\<lambda>rule. rule r) rs))
                            (filter (\<lambda>r. IsSupportedKind (Kind r)) resources))"
  by (induction resources arbitrary: findings) (simp_all add: apply_rules_eq)

lemma filterHighOnly_loop_eq:
  "filterHighOnly_loop fs filtered = filtered @ filter (\<lambda>f. Severity f = High) fs"
  by (induction fs arbitrary: filtered) simp_all

lemma filterHighOnly_eq: "filterHighOnly fs = filter (\<lambda>f. Severity f = High) fs"
  by (simp add: filterHighOnly_def filterHighOnly_loop_eq)

lemma Scan_eq:
  "Findings (Scan s resources) =
     (if IncludeMedium (options s)
      then scan_loop (rules s) resources []
      else filter (\<lambda>f. Severity f = High) (scan_loop (rules s) resources []))"
  by (simp add: Scan_def Let_def filterHighOnly_eq)

lemma oldFindingsSet_loop_lookup:
  "lookup_bool (oldFindingsSet_loop fs m) k = (k \<in> findingKey ` set fs \<or> lookup_bool m k)"
  by (induction fs arbitrary: m) (auto simp: lookup_bool_def update_conv')

lemma diff_loop_eq:
  "diff_loop m fs acc = acc @ filter (\<lambda>f. \<not> lookup_bool m (findingKey f)) fs"
  by (induction fs arbitrary: acc) simp_all

lemma Diff_eq:
  "Findings (Diff s oldResources newResources) =
     filter (\<lambda>f. findingKey f \<notin> findingKey ` set (Findings (Scan s oldResources)))
            (Findings (Scan s newResources))"
proof -
  have "lookup_bool [] k = False" for k
    by (simp add: lookup_bool_def)
  then show ?thesis
    by (simp add: Diff_def Let_def diff_loop_eq oldFindingsSet_loop_lookup)
qed

lemma GetExitCode_loop_eq:
  "GetExitCode_loop fs (h, m) =
     (h \<or> (\<exists>f\<in>set fs. Severity f = High), m \<or> (\<exists>f\<in>set fs. Severity f = Medium))"
  using High_neq_Medium by (induction fs arbitrary: h m) auto

subsection \<open>Diff of a resource list with itself\<close>

text \<open>
  Claim C4. For every resource list \<open>X\<close> and every scan option setting, \<open>Diff(X, X)\<close>, the
  same resource list on both sides, yields an empty finding list. It holds for a scanner
  with any rule list, and so for the scanner \<open>NewScanner\<close> builds from any options.
\<close>

theorem Diff_same_empty:
  "Diff s X X = \<lparr>Findings = []\<rparr> \<and> Diff (NewScanner opts) X X = \<lparr>Findings = []\<rparr>"
proof -
  have a: "Findings (Diff t X X) = []" for t
    unfolding Diff_eq by (simp add: filter_empty_conv)
  have "Diff t X X = \<lparr>Findings = []\<rparr>" for t
    using a [of t] by (cases "Diff t X X") simp
  then show ?thesis by blast
qed

subsection \<open>The severity filter\<close>

text \<open>
  Claim C5. For every resource list, the findings of \<open>Scan\<close> with \<open>IncludeMedium = false\<close>
  are the findings of \<open>Scan\<close> with \<open>IncludeMedium = true\<close> on the same input, restricted in
  order to those of HIGH severity; and the findings with \<open>IncludeMedium = true\<close> are the
  concatenation, over the resources of a supported kind in input order, of the outputs of
  the twelve rules in rule order. The filter looks at the severity of a finding only.
\<close>

theorem Scan_high_only_is_filter:
  "Findings (Scan (NewScanner (opts\<lparr>IncludeMedium := False\<rparr>)) X) =
     filter (\<lambda>f. Severity f = High)
       (Findings (Scan (NewScanner (opts\<lparr>IncludeMedium := True\<rparr>)) X))
   \<and> Findings (Scan (NewScanner (opts\<lparr>IncludeMedium := True\<rparr>)) X) =
     concat (map (\<lambda>r. concat (map (\<lambda>rule. rule r) AllRules))
                 (filter (\<lambda>r. IsSupportedKind (Kind r)) X))"
  by (simp add: Scan_eq NewScanner_def scan_loop_eq)

subsection \<open>The exit code\<close>

text \<open>
  Claim C6. For every finding list, \<open>GetExitCode\<close> returns the high-risk code 2 if some
  finding has HIGH severity; otherwise the medium-risk code 1 if some finding has MEDIUM
  severity; otherwise the clean code 0. The empty finding list yields 0.
\<close>

theorem GetExitCode_spec:
  "GetExitCode fs =
     (if (\<exists>f\<in>set fs. Severity f = High) then ExitHigh
      else if (\<exists>f\<in>set fs. Severity f = Medium) then ExitMedium
      else ExitOK)
   \<and> GetExitCode [] = ExitOK
   \<and> ExitHigh = 2 \<and> ExitMedium = 1 \<and> ExitOK = 0"
  by (simp add: GetExitCode_def GetExitCode_loop_eq ExitHigh_def ExitMedium_def ExitOK_def)

section \<open>Properties of the rules\<close>

lemmas read_defs = index_def has_key_def GetPodSpec_def GetPodSpec_jobTemplate_def

lemmas rule_defs =
  CheckPrivilegedContainer_def CheckHostPath_def CheckDockerSocket_def CheckRunsAsRoot_def
  CheckPrivilegeEscalation_def CheckWildcardRBAC_def CheckClusterRoleBindingDefaultSA_def
  CheckPublicLoadBalancer_def CheckNodePort_def CheckLatestTag_def CheckHostNetwork_def
  CheckHostPIDIPC_def pod_runAsNonRoot_def pod_runAsUser_def sensitiveNamespaces_def
  strings_HasSuffix_def strings_HasPrefix_def

subsection \<open>Rule 4 on a container without securityContext\<close>

lemmas claimed_defs =
  claimed_runs_as_root_def claimed_container_runs_as_root_def effective_runAsNonRoot_def
  effective_runAsUser_def securityContext_of_def

text \<open>
  Claim C1 says that rule 4 (runs-as-root) emits a finding exactly when some container's
  effective \<open>runAsNonRoot\<close> is false or absent and its effective \<open>runAsUser\<close> is 0 or unset,
  a container with no securityContext inheriting both pod-level fields; in particular such
  a container yields no finding under a pod-level \<open>runAsUser\<close> that is not zero, and a
  finding under a pod-level \<open>runAsUser\<close> of 0. The code tests \<open>podRunAsUser != 0\<close> on that
  path, where the path for a container with a securityContext tests
  \<open>runAsUser == 0 || runAsUser == -1\<close>. So a container with no securityContext under a
  pod-level \<open>runAsUser\<close> of 0 yields no finding, and under a pod-level \<open>runAsUser\<close> of 1000 it
  yields the finding "Container runs as root user (UID 0)"; the same two pods with an
  empty container-level securityContext give the results the claim states.
\<close>

theorem CheckRunsAsRoot_no_securityContext_inverted:
  "(CheckRunsAsRoot pod_uid0_no_sc = [] \<and> claimed_runs_as_root pod_uid0_no_sc)
   \<and> (CheckRunsAsRoot pod_uid1000_no_sc = [runsAsRoot_finding pod_uid1000_no_sc]
      \<and> \<not> claimed_runs_as_root pod_uid1000_no_sc)
   \<and> (CheckRunsAsRoot pod_uid0_empty_sc = [runsAsRoot_finding pod_uid0_empty_sc]
      \<and> claimed_runs_as_root pod_uid0_empty_sc)
   \<and> (CheckRunsAsRoot pod_uid1000_empty_sc = []
      \<and> \<not> claimed_runs_as_root pod_uid1000_empty_sc)"
  by (simp add: CheckRunsAsRoot_def pod_runAsNonRoot_def pod_runAsUser_def claimed_defs read_defs
      mkResource_def pod_uid0_no_sc_def pod_uid1000_no_sc_def pod_uid0_empty_sc_def
      pod_uid1000_empty_sc_def)

text \<open>
  On the other path the code and the claim agree: when every container has a
  securityContext (and no \<open>runAsUser\<close> is the code's sentinel -1), rule 4 has its finding
  exactly when some container runs as root in the claim's sense.
\<close>

lemma pod_runAsNonRoot_eq:
  "pod_runAsNonRoot podSpec =
     (as_bool (index (securityContext_of podSpec) ''runAsNonRoot'') = Some True)"
  by (simp add: pod_runAsNonRoot_def securityContext_of_def index_def
      split: option.splits bool.splits)

lemma pod_runAsUser_eq:
  "pod_runAsUser podSpec =
     (case as_int (index (securityContext_of podSpec) ''runAsUser'') of
        Some u \<Rightarrow> u | None \<Rightarrow> - 1)"
  by (simp add: pod_runAsUser_def securityContext_of_def index_def split: option.splits)

lemma runsAsRoot_step_with_sc:
  assumes "has_securityContext c"
    and "effective_runAsUser podSpec (case as_map c of Some m \<Rightarrow> m | None \<Rightarrow> []) \<noteq> Some (- 1)"
  shows "runsAsRoot_loop r (pod_runAsNonRoot podSpec) (pod_runAsUser podSpec) (c # cs) =
     (if claimed_container_runs_as_root podSpec c then [runsAsRoot_finding r]
      else runsAsRoot_loop r (pod_runAsNonRoot podSpec) (pod_runAsUser podSpec) cs)"
proof (cases "as_map c")
  case None
  then show ?thesis by (simp add: claimed_container_runs_as_root_def)
next
  case (Some container)
  with assms(1) obtain sc where sc: "as_map (index container ''securityContext'') = Some sc"
    by (auto simp: has_securityContext_def)
  then have so: "securityContext_of container = sc"
    by (simp add: securityContext_of_def)
  let ?b = "as_bool (index sc ''runAsNonRoot'')"
  let ?u = "as_int (index sc ''runAsUser'')"
  let ?pb = "as_bool (index (securityContext_of podSpec) ''runAsNonRoot'')"
  let ?pu = "as_int (index (securityContext_of podSpec) ''runAsUser'')"
  have step: "runsAsRoot_loop r (pod_runAsNonRoot podSpec) (pod_runAsUser podSpec) (c # cs) =
     (let runAsNonRoot = (case ?b of Some val \<Rightarrow> val | None \<Rightarrow> pod_runAsNonRoot podSpec);
          runAsUser = (case ?u of Some val \<Rightarrow> val | None \<Rightarrow> pod_runAsUser podSpec)
      in if \<not> runAsNonRoot \<and> (runAsUser = 0 \<or> runAsUser = - 1) then [runsAsRoot_finding r]
         else runsAsRoot_loop r (pod_runAsNonRoot podSpec) (pod_runAsUser podSpec) cs)"
    using Some sc by simp
  have eb: "effective_runAsNonRoot podSpec container =
      (case ?b of Some b \<Rightarrow> Some b | None \<Rightarrow> ?pb)"
    by (simp add: effective_runAsNonRoot_def so)
  have eu: "effective_runAsUser podSpec container =
      (case ?u of Some u \<Rightarrow> Some u | None \<Rightarrow> ?pu)"
    by (simp add: effective_runAsUser_def so)
  have nr: "(\<not> (case ?b of Some val \<Rightarrow> val | None \<Rightarrow> pod_runAsNonRoot podSpec)) =
      (effective_runAsNonRoot podSpec container \<noteq> Some True)"
    unfolding eb pod_runAsNonRoot_eq by (cases ?b) auto
  from assms(2) Some have neg: "effective_runAsUser podSpec container \<noteq> Some (- 1)"
    by simp
  have us: "((case ?u of Some val \<Rightarrow> val | None \<Rightarrow> pod_runAsUser podSpec) = 0
        \<or> (case ?u of Some val \<Rightarrow> val | None \<Rightarrow> pod_runAsUser podSpec) = - 1) =
      (effective_runAsUser podSpec container = Some 0
        \<or> effective_runAsUser podSpec container = None)"
    using neg unfolding eu pod_runAsUser_eq by (cases ?u; cases ?pu) auto
  show ?thesis
    unfolding step Let_def nr us
    by (simp add: claimed_container_runs_as_root_def Some)
qed

lemma runsAsRoot_loop_with_sc:
  assumes "\<forall>c\<in>set cs. has_securityContext c
      \<and> effective_runAsUser podSpec (case as_map c of Some m \<Rightarrow> m | None \<Rightarrow> []) \<noteq> Some (- 1)"
  shows "runsAsRoot_loop r (pod_runAsNonRoot podSpec) (pod_runAsUser podSpec) cs =
     (if list_ex (claimed_container_runs_as_root podSpec) cs then [runsAsRoot_finding r] else [])"
  using assms
proof (induction cs)
  case Nil
  then show ?case by simp
next
  case (Cons c cs)
  then have c: "has_securityContext c"
      "effective_runAsUser podSpec (case as_map c of Some m \<Rightarrow> m | None \<Rightarrow> []) \<noteq> Some (- 1)"
    and rest: "runsAsRoot_loop r (pod_runAsNonRoot podSpec) (pod_runAsUser podSpec) cs =
     (if list_ex (claimed_container_runs_as_root podSpec) cs then [runsAsRoot_finding r] else [])"
    by simp_all
  show ?case
    unfolding runsAsRoot_step_with_sc [OF c] rest by simp
qed

lemma CheckRunsAsRoot_with_securityContext:
  assumes "GetPodSpec r = Some podSpec"
    and "as_slice (index podSpec ''containers'') = Some cs"
    and "\<forall>c\<in>set cs. has_securityContext c
      \<and> effective_runAsUser podSpec (case as_map c of Some m \<Rightarrow> m | None \<Rightarrow> []) \<noteq> Some (- 1)"
  shows "CheckRunsAsRoot r = (if claimed_runs_as_root r then [runsAsRoot_finding r] else [])"
  using assms(1,2) runsAsRoot_loop_with_sc [OF assms(3), of r]
  by (simp add: CheckRunsAsRoot_def claimed_runs_as_root_def Let_def)

subsection \<open>Pod-spec extraction\<close>

lemma GetPodSpec_eq_subtree:
  "GetPodSpec r =
     (if Kind r = ''Pod'' then Some (Spec r)
      else case subtree_at (Spec r) [''template'', ''spec''] of
             Some podSpec \<Rightarrow> Some podSpec
           | None \<Rightarrow> subtree_at (Spec r) [''jobTemplate'', ''spec'', ''template'', ''spec''])"
  by (simp add: GetPodSpec_def GetPodSpec_jobTemplate_def split: option.splits)

lemma no_pod_spec_no_finding:
  assumes "GetPodSpec r = None"
  shows "CheckPrivilegedContainer r = []" and "CheckHostPath r = []"
    and "CheckDockerSocket r = []" and "CheckRunsAsRoot r = []"
    and "CheckPrivilegeEscalation r = []" and "CheckLatestTag r = []"
    and "CheckHostNetwork r = []" and "CheckHostPIDIPC r = []"
  using assms
  by (simp_all add: CheckPrivilegedContainer_def CheckHostPath_def CheckDockerSocket_def
      CheckRunsAsRoot_def CheckPrivilegeEscalation_def CheckLatestTag_def CheckHostNetwork_def
      CheckHostPIDIPC_def)

lemma Scan_svc_with_template:
  "Findings (Scan (NewScanner opts) [svc_with_template]) = [hostNetwork_finding svc_with_template]"
  by (simp add: Scan_eq scan_loop_eq NewScanner_def AllRules_def IsSupportedKind_def
      supported_def rule_defs read_defs mkResource_def svc_with_template_def
      hostNetwork_finding_def mkFinding_def High_def)

text \<open>
  Claim C2 says that pod-spec extraction is a dispatch on the resource's kind, and that a
  resource of a kind other than Pod, Deployment, StatefulSet, DaemonSet, Job and CronJob
  yields no pod spec even if its spec contains a \<open>template.spec\<close> subtree. \<open>GetPodSpec\<close>
  compares the kind with \<open>Pod\<close> only; its two other branches, which its comments give to
  Deployment, StatefulSet, DaemonSet and Job and to CronJob, are taken on the shape of the
  spec by a resource of any kind. So a Service whose spec carries
  \<open>template.spec.hostNetwork: true\<close> gets that subtree as its pod spec, rule 11 reports
  a HIGH host-network finding on the Service, and the exit code is 2. On a Deployment and
  a CronJob of the usual shape the code returns the pod spec the claim names.
\<close>

theorem GetPodSpec_Service_with_template:
  "Kind svc_with_template = ''Service''
   \<and> claimed_GetPodSpec svc_with_template = None
   \<and> GetPodSpec svc_with_template = Some [(''hostNetwork'', VBool True)]
   \<and> CheckHostNetwork svc_with_template = [hostNetwork_finding svc_with_template]
   \<and> Findings (Scan (NewScanner opts) [svc_with_template]) = [hostNetwork_finding svc_with_template]
   \<and> GetExitCode (Findings (Scan (NewScanner opts) [svc_with_template])) = ExitHigh
   \<and> GetPodSpec deploy_hostnet = Some [(''hostNetwork'', VBool True)]
   \<and> claimed_GetPodSpec deploy_hostnet = Some [(''hostNetwork'', VBool True)]
   \<and> GetPodSpec cronjob_hostnet = Some [(''hostNetwork'', VBool True)]
   \<and> claimed_GetPodSpec cronjob_hostnet = Some [(''hostNetwork'', VBool True)]"
  by (simp add: Scan_svc_with_template GetExitCode_def)
     (simp add: CheckHostNetwork_def claimed_GetPodSpec_def read_defs mkResource_def
        svc_with_template_def deploy_hostnet_def cronjob_hostnet_def hostNetwork_finding_def
        mkFinding_def)

text \<open>
  Where the shape of the spec goes with the kind, the code and the claim agree: on every
  Pod, on a Deployment, StatefulSet, DaemonSet or Job that has a \<open>template.spec\<close> mapping or
  no \<open>jobTemplate.spec.template.spec\<close> mapping, on a CronJob without a \<open>template.spec\<close>
  mapping, and on a resource of another kind with neither.
\<close>

lemma GetPodSpec_eq_claimed:
  assumes "Kind r \<in> {''Deployment'', ''StatefulSet'', ''DaemonSet'', ''Job''} \<Longrightarrow>
      subtree_at (Spec r) [''template'', ''spec''] \<noteq> None
      \<or> subtree_at (Spec r) [''jobTemplate'', ''spec'', ''template'', ''spec''] = None"
    and "Kind r = ''CronJob'' \<Longrightarrow> subtree_at (Spec r) [''template'', ''spec''] = None"
    and "Kind r \<notin> {''Pod'', ''Deployment'', ''StatefulSet'', ''DaemonSet'', ''Job'', ''CronJob''} \<Longrightarrow>
      subtree_at (Spec r) [''template'', ''spec''] = None
      \<and> subtree_at (Spec r) [''jobTemplate'', ''spec'', ''template'', ''spec''] = None"
  shows "GetPodSpec r = claimed_GetPodSpec r"
proof -
  let ?t = "subtree_at (Spec r) [''template'', ''spec'']"
  let ?j = "subtree_at (Spec r) [''jobTemplate'', ''spec'', ''template'', ''spec'']"
  have g: "GetPodSpec r =
     (if Kind r = ''Pod'' then Some (Spec r)
      else case ?t of Some podSpec \<Rightarrow> Some podSpec | None \<Rightarrow> ?j)"
    by (rule GetPodSpec_eq_subtree)
  consider (pod) "Kind r = ''Pod''"
    | (wl) "Kind r \<in> {''Deployment'', ''StatefulSet'', ''DaemonSet'', ''Job''}"
    | (cj) "Kind r = ''CronJob''"
    | (other) "Kind r \<notin> {''Pod'', ''Deployment'', ''StatefulSet'', ''DaemonSet'', ''Job'', ''CronJob''}"
    by blast
  then show ?thesis
  proof cases
    case pod
    then show ?thesis unfolding g claimed_GetPodSpec_def by simp
  next
    case wl
    then have np: "Kind r \<noteq> ''Pod''" by auto
    from assms(1) [OF wl] show ?thesis
      unfolding g claimed_GetPodSpec_def using wl np by (cases ?t) auto
  next
    case cj
    from assms(2) [OF cj] show ?thesis
      unfolding g claimed_GetPodSpec_def using cj by simp
  next
    case other
    from assms(3) [OF other] show ?thesis
      unfolding g claimed_GetPodSpec_def using other by simp
  qed
qed

subsection \<open>The diff key\<close>

lemma append_sep_inj:
  assumes "c \<notin> set a" and "c \<notin> set a'" and "a @ c # b = a' @ c # b'"
  shows "a = a' \<and> b = b'"
  using assms
proof (induction a arbitrary: a')
  case Nil
  then show ?case by (cases a') auto
next
  case (Cons x xs)
  then show ?case by (cases a') auto
qed

lemma findingKey_inj:
  assumes "CHR ''|'' \<notin> set (RuleID f)" "CHR ''|'' \<notin> set (FKind f)" "CHR ''|'' \<notin> set (FName f)"
    and "CHR ''|'' \<notin> set (RuleID g)" "CHR ''|'' \<notin> set (FKind g)" "CHR ''|'' \<notin> set (FName g)"
    and "findingKey f = findingKey g"
  shows "identity f = identity g"
proof -
  from assms(7) have k: "RuleID f @ CHR ''|'' # (FKind f @ CHR ''|'' # (FName f @ CHR ''|'' # FNamespace f))
      = RuleID g @ CHR ''|'' # (FKind g @ CHR ''|'' # (FName g @ CHR ''|'' # FNamespace g))"
    by (simp add: findingKey_def)
  from append_sep_inj [OF assms(1) assms(4) k]
  have r: "RuleID f = RuleID g"
    and k2: "FKind f @ CHR ''|'' # (FName f @ CHR ''|'' # FNamespace f)
       = FKind g @ CHR ''|'' # (FName g @ CHR ''|'' # FNamespace g)"
    by simp_all
  from append_sep_inj [OF assms(2) assms(5) k2]
  have kd: "FKind f = FKind g"
    and k3: "FName f @ CHR ''|'' # FNamespace f = FName g @ CHR ''|'' # FNamespace g"
    by simp_all
  from append_sep_inj [OF assms(3) assms(6) k3] r kd
  show ?thesis by (simp add: identity_def)
qed

lemma identity_imp_findingKey: "identity f = identity g \<Longrightarrow> findingKey f = findingKey g"
  by (simp add: identity_def findingKey_def)

lemma Scan_pod_pipe_old:
  "Findings (Scan (NewScanner opts) [pod_pipe_old]) = [privileged_finding pod_pipe_old]"
  by (simp add: Scan_eq scan_loop_eq NewScanner_def AllRules_def IsSupportedKind_def
      supported_def rule_defs read_defs mkResource_def pod_pipe_old_def privileged_spec_def privileged_finding_def mkFinding_def)

lemma Scan_pod_pipe_new:
  "Findings (Scan (NewScanner opts) [pod_pipe_new]) = [privileged_finding pod_pipe_new]"
  by (simp add: Scan_eq scan_loop_eq NewScanner_def AllRules_def IsSupportedKind_def
      supported_def rule_defs read_defs mkResource_def pod_pipe_new_def privileged_spec_def privileged_finding_def mkFinding_def)

lemma key_pipe_old: "findingKey (privileged_finding pod_pipe_old) = ''privileged-container|Pod|a|b|c''"
  by (simp add: findingKey_def privileged_finding_def mkFinding_def mkResource_def pod_pipe_old_def privileged_spec_def)

lemma key_pipe_new: "findingKey (privileged_finding pod_pipe_new) = ''privileged-container|Pod|a|b|c''"
  by (simp add: findingKey_def privileged_finding_def mkFinding_def mkResource_def pod_pipe_new_def privileged_spec_def)

lemma identity_pipe_old:
  "identity (privileged_finding pod_pipe_old) = (''privileged-container'', ''Pod'', ''a|b'', ''c'')"
  by (simp add: identity_def privileged_finding_def mkFinding_def mkResource_def pod_pipe_old_def privileged_spec_def)

lemma identity_pipe_new:
  "identity (privileged_finding pod_pipe_new) = (''privileged-container'', ''Pod'', ''a'', ''b|c'')"
  by (simp add: identity_def privileged_finding_def mkFinding_def mkResource_def pod_pipe_new_def privileged_spec_def)

text \<open>
  Claim C3 says that \<open>Diff\<close> returns exactly the findings of the new scan whose identity
  tuple (ruleID, kind, name, namespace) is that of no finding of the old scan. \<open>Diff\<close>
  compares the strings \<open>findingKey\<close> builds, and two different tuples can give one string:
  with an old pod named \<open>a|b\<close> in namespace \<open>c\<close> and a new pod named \<open>a\<close> in namespace
  \<open>b|c\<close>, both privileged, \<open>Diff\<close> returns nothing, although the new finding's identity
  tuple is not the old finding's and the diff by identity tuple returns the new finding.
\<close>

theorem Diff_drops_new_finding_on_key_collision:
  "Findings (Diff (NewScanner opts) [pod_pipe_old] [pod_pipe_new]) = []
   \<and> Diff_by_identity (NewScanner opts) [pod_pipe_old] [pod_pipe_new]
       = [privileged_finding pod_pipe_new]
   \<and> identity (privileged_finding pod_pipe_new) = (''privileged-container'', ''Pod'', ''a'', ''b|c'')
   \<and> identity ` set (Findings (Scan (NewScanner opts) [pod_pipe_old]))
       = {(''privileged-container'', ''Pod'', ''a|b'', ''c'')}"
  by (simp add: Diff_eq Diff_by_identity_def Scan_pod_pipe_old Scan_pod_pipe_new
      key_pipe_old key_pipe_new identity_pipe_old identity_pipe_new)

text \<open>
  Claim C10. The key of a finding is its ruleID, kind, name and namespace joined by
  \<open>"|"\<close>. The encoding is not injective: the privileged-container findings of the pod
  named \<open>a|b\<close> in namespace \<open>c\<close> and of the pod named \<open>a\<close> in namespace \<open>b|c\<close> have
  different identity tuples and the same key, and \<open>Diff\<close> from the first pod to the second
  drops the second pod's finding, which the new scan reports and whose identity tuple no
  old finding has. For two findings whose four identity fields contain no \<open>"|"\<close>, the keys
  are equal exactly when the identity tuples are.
\<close>

theorem findingKey_not_injective:
  "findingKey f = RuleID f @ ''|'' @ FKind f @ ''|'' @ FName f @ ''|'' @ FNamespace f
   \<and> (findingKey (privileged_finding pod_pipe_old) = findingKey (privileged_finding pod_pipe_new)
      \<and> identity (privileged_finding pod_pipe_old) \<noteq> identity (privileged_finding pod_pipe_new))
   \<and> (privileged_finding pod_pipe_new \<in> set (Findings (Scan (NewScanner opts) [pod_pipe_new]))
      \<and> identity (privileged_finding pod_pipe_new)
           \<notin> identity ` set (Findings (Scan (NewScanner opts) [pod_pipe_old]))
      \<and> privileged_finding pod_pipe_new
           \<notin> set (Findings (Diff (NewScanner opts) [pod_pipe_old] [pod_pipe_new])))
   \<and> (CHR ''|'' \<notin> set (RuleID f) \<and> CHR ''|'' \<notin> set (FKind f) \<and> CHR ''|'' \<notin> set (FName f)
        \<and> CHR ''|'' \<notin> set (FNamespace f)
        \<and> CHR ''|'' \<notin> set (RuleID g) \<and> CHR ''|'' \<notin> set (FKind g) \<and> CHR ''|'' \<notin> set (FName g)
        \<and> CHR ''|'' \<notin> set (FNamespace g)
      \<longrightarrow> (findingKey f = findingKey g) = (identity f = identity g))"
proof (intro conjI impI)
  show "findingKey f = RuleID f @ ''|'' @ FKind f @ ''|'' @ FName f @ ''|'' @ FNamespace f"
    by (simp add: findingKey_def)
  show "findingKey (privileged_finding pod_pipe_old) = findingKey (privileged_finding pod_pipe_new)"
    by (simp add: key_pipe_old key_pipe_new)
  show "identity (privileged_finding pod_pipe_old) \<noteq> identity (privileged_finding pod_pipe_new)"
    by (simp add: identity_pipe_old identity_pipe_new)
  show "privileged_finding pod_pipe_new \<in> set (Findings (Scan (NewScanner opts) [pod_pipe_new]))"
    by (simp add: Scan_pod_pipe_new)
  show "identity (privileged_finding pod_pipe_new)
           \<notin> identity ` set (Findings (Scan (NewScanner opts) [pod_pipe_old]))"
    by (simp add: Scan_pod_pipe_old identity_pipe_old identity_pipe_new)
  show "privileged_finding pod_pipe_new
           \<notin> set (Findings (Diff (NewScanner opts) [pod_pipe_old] [pod_pipe_new]))"
    by (simp add: Diff_eq Scan_pod_pipe_old Scan_pod_pipe_new key_pipe_old key_pipe_new)
next
  assume a: "CHR ''|'' \<notin> set (RuleID f) \<and> CHR ''|'' \<notin> set (FKind f) \<and> CHR ''|'' \<notin> set (FName f)
        \<and> CHR ''|'' \<notin> set (FNamespace f)
        \<and> CHR ''|'' \<notin> set (RuleID g) \<and> CHR ''|'' \<notin> set (FKind g) \<and> CHR ''|'' \<notin> set (FName g)
        \<and> CHR ''|'' \<notin> set (FNamespace g)"
  show "(findingKey f = findingKey g) = (identity f = identity g)"
    using a findingKey_inj [of f g] identity_imp_findingKey [of f g] by blast
qed

theorem findingKey_not_injective_witness:
  "(findingKey (privileged_finding svc_plain) = findingKey (hostNetwork_finding svc_plain))
     = (identity (privileged_finding svc_plain) = identity (hostNetwork_finding svc_plain))
   \<and> findingKey (privileged_finding svc_plain) \<noteq> findingKey (hostNetwork_finding svc_plain)
   \<and> (findingKey (hostPID_finding svc_plain) = findingKey (hostIPC_finding svc_plain))
     = (identity (hostPID_finding svc_plain) = identity (hostIPC_finding svc_plain))
   \<and> findingKey (hostPID_finding svc_plain) = findingKey (hostIPC_finding svc_plain)
   \<and> hostPID_finding svc_plain \<noteq> hostIPC_finding svc_plain
   \<and> findingKey (privileged_finding svc_plain) = ''privileged-container|Service|front|default''"
proof -
  have p: "CHR ''|'' \<notin> set (RuleID (privileged_finding svc_plain))
      \<and> CHR ''|'' \<notin> set (FKind (privileged_finding svc_plain))
      \<and> CHR ''|'' \<notin> set (FName (privileged_finding svc_plain))
      \<and> CHR ''|'' \<notin> set (FNamespace (privileged_finding svc_plain))"
    by (simp add: privileged_finding_def mkFinding_def mkResource_def svc_plain_def)
  have h: "CHR ''|'' \<notin> set (RuleID (hostNetwork_finding svc_plain))
      \<and> CHR ''|'' \<notin> set (FKind (hostNetwork_finding svc_plain))
      \<and> CHR ''|'' \<notin> set (FName (hostNetwork_finding svc_plain))
      \<and> CHR ''|'' \<notin> set (FNamespace (hostNetwork_finding svc_plain))"
    by (simp add: hostNetwork_finding_def mkFinding_def mkResource_def svc_plain_def)
  have i: "CHR ''|'' \<notin> set (RuleID (hostPID_finding svc_plain))
      \<and> CHR ''|'' \<notin> set (FKind (hostPID_finding svc_plain))
      \<and> CHR ''|'' \<notin> set (FName (hostPID_finding svc_plain))
      \<and> CHR ''|'' \<notin> set (FNamespace (hostPID_finding svc_plain))"
    by (simp add: hostPID_finding_def mkFinding_def mkResource_def svc_plain_def)
  have j: "CHR ''|'' \<notin> set (RuleID (hostIPC_finding svc_plain))
      \<and> CHR ''|'' \<notin> set (FKind (hostIPC_finding svc_plain))
      \<and> CHR ''|'' \<notin> set (FName (hostIPC_finding svc_plain))
      \<and> CHR ''|'' \<notin> set (FNamespace (hostIPC_finding svc_plain))"
    by (simp add: hostIPC_finding_def mkFinding_def mkResource_def svc_plain_def)
  have a: "(findingKey (privileged_finding svc_plain) = findingKey (hostNetwork_finding svc_plain))
     = (identity (privileged_finding svc_plain) = identity (hostNetwork_finding svc_plain))"
    using findingKey_not_injective
      [where f = "privileged_finding svc_plain" and g = "hostNetwork_finding svc_plain"] p h
    by blast
  have b: "(findingKey (hostPID_finding svc_plain) = findingKey (hostIPC_finding svc_plain))
     = (identity (hostPID_finding svc_plain) = identity (hostIPC_finding svc_plain))"
    using findingKey_not_injective
      [where f = "hostPID_finding svc_plain" and g = "hostIPC_finding svc_plain"] i j
    by blast
  have c: "findingKey (privileged_finding svc_plain) \<noteq> findingKey (hostNetwork_finding svc_plain)"
    by (simp add: findingKey_def privileged_finding_def hostNetwork_finding_def mkFinding_def)
  have d: "findingKey (hostPID_finding svc_plain) = findingKey (hostIPC_finding svc_plain)"
    by (simp add: findingKey_def hostPID_finding_def hostIPC_finding_def mkFinding_def)
  have e: "hostPID_finding svc_plain \<noteq> hostIPC_finding svc_plain"
    by (simp add: hostPID_finding_def hostIPC_finding_def mkFinding_def)
  have k: "findingKey (privileged_finding svc_plain) = ''privileged-container|Service|front|default''"
    by (simp add: findingKey_def privileged_finding_def mkFinding_def mkResource_def svc_plain_def)
  show ?thesis using a b c d e k by blast
qed

subsection \<open>Every rule returns no finding or one\<close>

lemma privileged_loop_Cons:
  "privileged_loop r (c # cs) =
     (if container_privileged c then [privileged_finding r] else privileged_loop r cs)"
  by (simp add: container_privileged_def split: option.splits bool.splits)

lemma privileged_loop_eq:
  "privileged_loop r cs =
     (if \<exists>c\<in>set cs. container_privileged c then [privileged_finding r] else [])"
  by (induction cs) (simp_all add: privileged_loop_Cons del: privileged_loop.simps(2))

lemma privileged_loop_cases:
  "privileged_loop r cs = [] \<or> privileged_loop r cs = [privileged_finding r]"
  by (simp add: privileged_loop_eq)

lemma hostPath_loop_cases:
  "hostPath_loop r vs = [] \<or> hostPath_loop r vs = [hostPath_finding r]"
  by (induction vs) (auto split: option.splits)

lemma dockerSocket_loop_cases:
  "dockerSocket_loop r vs = [] \<or> dockerSocket_loop r vs = [dockerSocket_finding r]"
  by (induction vs) (auto split: option.splits)

lemma runsAsRoot_loop_cases:
  "runsAsRoot_loop r b u cs = [] \<or> runsAsRoot_loop r b u cs = [runsAsRoot_finding r]"
  by (induction cs) (auto simp: Let_def split: option.splits)

lemma privilegeEscalation_loop_cases:
  "privilegeEscalation_loop r cs = [] \<or>
   privilegeEscalation_loop r cs = [privilegeEscalation_finding r]"
  by (induction cs) (auto split: option.splits bool.splits)

lemma wildcardRBAC_loop_cases:
  "wildcardRBAC_loop r rs = [] \<or> wildcardRBAC_loop r rs = [wildcardRBAC_finding r]"
  by (induction rs) (auto simp: Let_def)

lemma defaultSA_loop_cases:
  "defaultSA_loop r ss = [] \<or> defaultSA_loop r ss = [defaultSA_finding r]"
  by (induction ss) auto

lemma latestTag_loop_cases:
  "latestTag_loop r cs = [] \<or> latestTag_loop r cs = [latestTag_finding r]"
  by (induction cs) (auto split: option.splits)

lemma CheckPrivilegedContainer_cases:
  "CheckPrivilegedContainer r = [] \<or> CheckPrivilegedContainer r = [privileged_finding r]"
  using privileged_loop_cases by (auto simp: CheckPrivilegedContainer_def split: option.splits)

lemma CheckHostPath_cases:
  "CheckHostPath r = [] \<or> CheckHostPath r = [hostPath_finding r]"
  using hostPath_loop_cases by (auto simp: CheckHostPath_def split: option.splits)

lemma CheckDockerSocket_cases:
  "CheckDockerSocket r = [] \<or> CheckDockerSocket r = [dockerSocket_finding r]"
  using dockerSocket_loop_cases by (auto simp: CheckDockerSocket_def split: option.splits)

lemma CheckRunsAsRoot_cases:
  "CheckRunsAsRoot r = [] \<or> CheckRunsAsRoot r = [runsAsRoot_finding r]"
  using runsAsRoot_loop_cases
  by (auto simp: CheckRunsAsRoot_def Let_def split: option.splits)

lemma CheckPrivilegeEscalation_cases:
  "CheckPrivilegeEscalation r = [] \<or>
   CheckPrivilegeEscalation r = [privilegeEscalation_finding r]"
  using privilegeEscalation_loop_cases
  by (auto simp: CheckPrivilegeEscalation_def split: option.splits)

lemma CheckWildcardRBAC_cases:
  "CheckWildcardRBAC r = [] \<or> CheckWildcardRBAC r = [wildcardRBAC_finding r]"
  using wildcardRBAC_loop_cases by (auto simp: CheckWildcardRBAC_def)

lemma CheckClusterRoleBindingDefaultSA_cases:
  "CheckClusterRoleBindingDefaultSA r = [] \<or>
   CheckClusterRoleBindingDefaultSA r = [defaultSA_finding r]"
  using defaultSA_loop_cases by (auto simp: CheckClusterRoleBindingDefaultSA_def)

lemma CheckPublicLoadBalancer_cases:
  "CheckPublicLoadBalancer r = [] \<or>
   CheckPublicLoadBalancer r = [publicLoadBalancer_finding r]"
  by (auto simp: CheckPublicLoadBalancer_def split: option.splits)

lemma CheckNodePort_cases:
  "CheckNodePort r = [] \<or> CheckNodePort r = [nodePort_finding r]"
  by (auto simp: CheckNodePort_def split: option.splits)

lemma CheckLatestTag_cases:
  "CheckLatestTag r = [] \<or> CheckLatestTag r = [latestTag_finding r]"
  using latestTag_loop_cases by (auto simp: CheckLatestTag_def split: option.splits)

lemma CheckHostNetwork_cases:
  "CheckHostNetwork r = [] \<or> CheckHostNetwork r = [hostNetwork_finding r]"
  by (auto simp: CheckHostNetwork_def split: option.splits bool.splits)

lemma CheckHostPIDIPC_cases:
  "CheckHostPIDIPC r = [] \<or> CheckHostPIDIPC r = [hostPID_finding r] \<or>
   CheckHostPIDIPC r = [hostIPC_finding r]"
  by (auto simp: CheckHostPIDIPC_def split: option.splits bool.splits)

lemmas finding_defs =
  privileged_finding_def hostPath_finding_def dockerSocket_finding_def runsAsRoot_finding_def
  privilegeEscalation_finding_def wildcardRBAC_finding_def defaultSA_finding_def
  publicLoadBalancer_finding_def nodePort_finding_def latestTag_finding_def
  hostNetwork_finding_def hostPID_finding_def hostIPC_finding_def

lemma AllRules_of_resource:
  assumes "rule \<in> set AllRules" and "f \<in> set (rule r)"
  shows "FKind f = Kind r"
proof -
  have k: "FKind (mkFinding i s r a b c) = Kind r" for i s a b c
    by (simp add: mkFinding_def)
  from assms(1) consider
      "rule = CheckPrivilegedContainer" | "rule = CheckHostPath" | "rule = CheckDockerSocket"
    | "rule = CheckRunsAsRoot" | "rule = CheckPrivilegeEscalation" | "rule = CheckWildcardRBAC"
    | "rule = CheckClusterRoleBindingDefaultSA" | "rule = CheckPublicLoadBalancer"
    | "rule = CheckNodePort" | "rule = CheckLatestTag" | "rule = CheckHostNetwork"
    | "rule = CheckHostPIDIPC"
    by (auto simp: AllRules_def)
  then show ?thesis
  proof cases
    case 1 with assms(2) CheckPrivilegedContainer_cases [of r] show ?thesis
      by (auto simp: finding_defs k)
  next
    case 2 with assms(2) CheckHostPath_cases [of r] show ?thesis
      by (auto simp: finding_defs k)
  next
    case 3 with assms(2) CheckDockerSocket_cases [of r] show ?thesis
      by (auto simp: finding_defs k)
  next
    case 4 with assms(2) CheckRunsAsRoot_cases [of r] show ?thesis
      by (auto simp: finding_defs k)
  next
    case 5 with assms(2) CheckPrivilegeEscalation_cases [of r] show ?thesis
      by (auto simp: finding_defs k)
  next
    case 6 with assms(2) CheckWildcardRBAC_cases [of r] show ?thesis
      by (auto simp: finding_defs k)
  next
    case 7 with assms(2) CheckClusterRoleBindingDefaultSA_cases [of r] show ?thesis
      by (auto simp: finding_defs k)
  next
    case 8 with assms(2) CheckPublicLoadBalancer_cases [of r] show ?thesis
      by (auto simp: finding_defs k)
  next
    case 9 with assms(2) CheckNodePort_cases [of r] show ?thesis
      by (auto simp: finding_defs k)
  next
    case 10 with assms(2) CheckLatestTag_cases [of r] show ?thesis
      by (auto simp: finding_defs k)
  next
    case 11 with assms(2) CheckHostNetwork_cases [of r] show ?thesis
      by (auto simp: finding_defs k)
  next
    case 12 with assms(2) CheckHostPIDIPC_cases [of r] show ?thesis
      by (auto simp: finding_defs k)
  qed
qed

lemma supported_no_slash:
  assumes "IsSupportedKind k"
  shows "CHR ''/'' \<notin> set k"
proof -
  from assms have "k \<in> fst ` set supported"
    by (auto simp: IsSupportedKind_def split: option.splits dest: map_of_SomeD intro: rev_image_eqI)
  then show ?thesis
    by (auto simp: supported_def)
qed

lemma Scan_findings_kind:
  assumes "f \<in> set (Findings (Scan (NewScanner opts) X))"
  shows "CHR ''/'' \<notin> set (FKind f)"
proof -
  from assms have "f \<in> set (scan_loop AllRules X [])"
    by (auto simp: Scan_eq NewScanner_def split: if_splits)
  then obtain r rule where "IsSupportedKind (Kind r)" "rule \<in> set AllRules" "f \<in> set (rule r)"
    by (auto simp: scan_loop_eq)
  then show ?thesis
    using AllRules_of_resource supported_no_slash by metis
qed

lemma Diff_findings_kind:
  assumes "f \<in> set (Findings (Diff (NewScanner opts) X Y))"
  shows "CHR ''/'' \<notin> set (FKind f)"
  using assms Scan_findings_kind [of f opts Y] by (simp add: Diff_eq)

subsection \<open>The summary\<close>

lemma GetSummary_loop_high:
  "SummaryHigh (fst (GetSummary_loop fs (s, rs, ns))) =
     SummaryHigh s + int (length (filter (\<lambda>f. Severity f = High) fs))"
  by (induction fs arbitrary: s rs ns) (simp_all add: Let_def)

lemma GetSummary_loop_medium:
  "SummaryMedium (fst (GetSummary_loop fs (s, rs, ns))) =
     SummaryMedium s + int (length (filter (\<lambda>f. Severity f = Medium) fs))"
  using High_neq_Medium by (induction fs arbitrary: s rs ns) (simp_all add: Let_def)

lemma GetSummary_loop_resources:
  "fst ` set (fst (snd (GetSummary_loop fs (s, rs, ns)))) =
     fst ` set rs \<union> (\<lambda>f. FKind f @ ''/'' @ FName f) ` set fs"
  by (induction fs arbitrary: s rs ns) (simp_all add: Let_def dom_update)

lemma GetSummary_loop_namespaces:
  "fst ` set (snd (snd (GetSummary_loop fs (s, rs, ns)))) =
     fst ` set ns \<union> (FNamespace ` set fs - {[]})"
  by (induction fs arbitrary: s rs ns) (auto simp: Let_def dom_update)

lemma GetSummary_loop_distinct:
  assumes "distinct (map fst rs)" and "distinct (map fst ns)"
  shows "distinct (map fst (fst (snd (GetSummary_loop fs (s, rs, ns)))))
     \<and> distinct (map fst (snd (snd (GetSummary_loop fs (s, rs, ns)))))"
  using assms
  by (induction fs arbitrary: s rs ns) (simp_all add: Let_def distinct_update)

lemma length_distinct_keys:
  assumes "distinct (map fst al)"
  shows "length al = card (fst ` set al)"
  using distinct_card [OF assms] by simp

lemma GetSummary_eq:
  "GetSummary fs =
     \<lparr>SummaryHigh = int (length (filter (\<lambda>f. Severity f = High) fs)),
      SummaryMedium = int (length (filter (\<lambda>f. Severity f = Medium) fs)),
      ResourcesAffected = int (card ((\<lambda>f. FKind f @ ''/'' @ FName f) ` set fs)),
      NamespacesAffected = int (card (FNamespace ` set fs - {[]}))\<rparr>"
proof -
  let ?z = "\<lparr>SummaryHigh = 0, SummaryMedium = 0, ResourcesAffected = 0, NamespacesAffected = 0\<rparr>"
  obtain s rs ns where l: "GetSummary_loop fs (?z, [], []) = (s, rs, ns)"
    by (cases "GetSummary_loop fs (?z, [], [])") auto
  have h: "SummaryHigh s = int (length (filter (\<lambda>f. Severity f = High) fs))"
    using GetSummary_loop_high [of fs ?z "[]" "[]"] l by simp
  have m: "SummaryMedium s = int (length (filter (\<lambda>f. Severity f = Medium) fs))"
    using GetSummary_loop_medium [of fs ?z "[]" "[]"] l by simp
  have d: "distinct (map fst rs) \<and> distinct (map fst ns)"
    using GetSummary_loop_distinct [of "[]" "[]" fs ?z] l by simp
  have r: "length rs = card ((\<lambda>f. FKind f @ ''/'' @ FName f) ` set fs)"
    using GetSummary_loop_resources [of fs ?z "[]" "[]"] l d
    by (simp add: length_distinct_keys)
  have n: "length ns = card (FNamespace ` set fs - {[]})"
    using GetSummary_loop_namespaces [of fs ?z "[]" "[]"] l d
    by (simp add: length_distinct_keys)
  show ?thesis
    using h m r n l by (cases s) (simp add: GetSummary_def)
qed

lemma resource_keys_card:
  assumes "\<forall>f\<in>set fs. CHR ''/'' \<notin> set (FKind f)"
  shows "card ((\<lambda>f. FKind f @ ''/'' @ FName f) ` set fs) =
         card ((\<lambda>f. (FKind f, FName f)) ` set fs)"
proof -
  let ?P = "(\<lambda>f. (FKind f, FName f)) ` set fs"
  let ?g = "\<lambda>(k, n). k @ ''/'' @ n"
  have inj: "inj_on ?g ?P"
  proof (rule inj_onI)
    fix x y assume x: "x \<in> ?P" and y: "y \<in> ?P" and e: "?g x = ?g y"
    obtain k n where xk: "x = (k, n)" by (cases x)
    obtain k' n' where yk: "y = (k', n')" by (cases y)
    from x xk assms have a: "CHR ''/'' \<notin> set k" by auto
    from y yk assms have b: "CHR ''/'' \<notin> set k'" by auto
    from e xk yk have "k @ CHR ''/'' # n = k' @ CHR ''/'' # n'" by simp
    from append_sep_inj [OF a b this] show "x = y" using xk yk by simp
  qed
  have "(\<lambda>f. FKind f @ ''/'' @ FName f) ` set fs = ?g ` ?P"
    by (simp add: image_image)
  then show ?thesis using card_image [OF inj] by simp
qed

text \<open>
  Claim C7 as stated, for every finding list: \<open>resourcesAffected\<close> is the number of distinct
  (kind, name) pairs. \<open>GetSummary\<close> counts the distinct strings \<open>kind/name\<close>, and two
  findings of kind \<open>a/b\<close>, name \<open>c\<close> and of kind \<open>a\<close>, name \<open>b/c\<close> are two pairs
  counted once.
\<close>

theorem GetSummary_slash_counterexample:
  "ResourcesAffected (GetSummary [finding_slash_a, finding_slash_b]) = 1
   \<and> card ((\<lambda>f. (FKind f, FName f)) ` set [finding_slash_a, finding_slash_b]) = 2"
  by (simp add: GetSummary_eq finding_slash_a_def finding_slash_b_def)

text \<open>
  Claim C7, amended. For every finding list in which no kind contains \<open>"/"\<close>,
  \<open>GetSummary\<close> returns: high = the number of findings with HIGH severity, medium = the
  number with MEDIUM severity, resourcesAffected = the number of distinct (kind, name)
  pairs among the findings, and namespacesAffected = the number of distinct non-empty
  namespaces among the findings. Every finding list that \<open>Scan\<close> or \<open>Diff\<close> returns is such
  a list: a finding carries the kind of its resource, and only resources of a supported
  kind are scanned.
\<close>

theorem GetSummary_counts:
  "((\<forall>f\<in>set fs. CHR ''/'' \<notin> set (FKind f)) \<longrightarrow>
     GetSummary fs =
       \<lparr>SummaryHigh = int (length (filter (\<lambda>f. Severity f = High) fs)),
        SummaryMedium = int (length (filter (\<lambda>f. Severity f = Medium) fs)),
        ResourcesAffected = int (card ((\<lambda>f. (FKind f, FName f)) ` set fs)),
        NamespacesAffected = int (card (FNamespace ` set fs - {[]}))\<rparr>)
   \<and> (\<forall>f\<in>set (Findings (Scan (NewScanner opts) X)). CHR ''/'' \<notin> set (FKind f))
   \<and> (\<forall>f\<in>set (Findings (Diff (NewScanner opts) X Y)). CHR ''/'' \<notin> set (FKind f))"
proof (intro conjI impI ballI)
  assume h: "\<forall>f\<in>set fs. CHR ''/'' \<notin> set (FKind f)"
  show "GetSummary fs =
       \<lparr>SummaryHigh = int (length (filter (\<lambda>f. Severity f = High) fs)),
        SummaryMedium = int (length (filter (\<lambda>f. Severity f = Medium) fs)),
        ResourcesAffected = int (card ((\<lambda>f. (FKind f, FName f)) ` set fs)),
        NamespacesAffected = int (card (FNamespace ` set fs - {[]}))\<rparr>"
    by (simp only: GetSummary_eq resource_keys_card [OF h])
next
  fix f assume "f \<in> set (Findings (Scan (NewScanner opts) X))"
  then show "CHR ''/'' \<notin> set (FKind f)" by (rule Scan_findings_kind)
next
  fix f assume "f \<in> set (Findings (Diff (NewScanner opts) X Y))"
  then show "CHR ''/'' \<notin> set (FKind f)" by (rule Diff_findings_kind)
qed

lemma Scan_pod_two_privileged:
  "Findings (Scan (NewScanner \<lparr>IncludeMedium = False, OutputFormat = ''human''\<rparr>)
       [pod_two_privileged])
   = [privileged_finding pod_two_privileged, hostPID_finding pod_two_privileged]"
  by (simp add: Scan_eq scan_loop_eq NewScanner_def AllRules_def IsSupportedKind_def
      supported_def rule_defs read_defs mkResource_def pod_two_privileged_def finding_defs
      mkFinding_def High_def Medium_def)

theorem GetSummary_counts_witness:
  "GetSummary example_findings =
     \<lparr>SummaryHigh = 3, SummaryMedium = 1, ResourcesAffected = 3, NamespacesAffected = 2\<rparr>
   \<and> list_all (\<lambda>f. CHR ''/'' \<notin> set (FKind f)) example_findings
   \<and> GetSummary (Findings (Scan (NewScanner \<lparr>IncludeMedium = False, OutputFormat = ''human''\<rparr>)
         [pod_two_privileged])) =
     \<lparr>SummaryHigh = 2, SummaryMedium = 0, ResourcesAffected = 1, NamespacesAffected = 1\<rparr>"
proof -
  let ?opts = "\<lparr>IncludeMedium = False, OutputFormat = ''human''\<rparr>"
  let ?fs = "Findings (Scan (NewScanner ?opts) [pod_two_privileged])"
  note t = GetSummary_counts
  have h: "\<forall>f\<in>set example_findings. CHR ''/'' \<notin> set (FKind f)"
    by (simp add: example_findings_def finding_defs mkFinding_def mkResource_def pod_two_privileged_def
        svc_with_template_def clusterrole_admin_def)
  have "GetSummary example_findings =
       \<lparr>SummaryHigh = int (length (filter (\<lambda>f. Severity f = High) example_findings)),
        SummaryMedium = int (length (filter (\<lambda>f. Severity f = Medium) example_findings)),
        ResourcesAffected = int (card ((\<lambda>f. (FKind f, FName f)) ` set example_findings)),
        NamespacesAffected = int (card (FNamespace ` set example_findings - {[]}))\<rparr>"
    using t [of example_findings] h by blast
  moreover have "length (filter (\<lambda>f. Severity f = High) example_findings) = 3"
    using High_neq_Medium
    by (simp add: example_findings_def finding_defs mkFinding_def)
  moreover have "length (filter (\<lambda>f. Severity f = Medium) example_findings) = 1"
    using High_neq_Medium
    by (simp add: example_findings_def finding_defs mkFinding_def)
  moreover have "card ((\<lambda>f. (FKind f, FName f)) ` set example_findings) = 3"
    by (simp add: example_findings_def finding_defs mkFinding_def mkResource_def pod_two_privileged_def
        svc_with_template_def clusterrole_admin_def)
  moreover have "card (FNamespace ` set example_findings - {[]}) = 2"
    by (simp add: example_findings_def finding_defs mkFinding_def mkResource_def pod_two_privileged_def
        svc_with_template_def clusterrole_admin_def)
  ultimately have a: "GetSummary example_findings =
     \<lparr>SummaryHigh = 3, SummaryMedium = 1, ResourcesAffected = 3, NamespacesAffected = 2\<rparr>"
    by simp
  have k: "\<forall>f\<in>set ?fs. CHR ''/'' \<notin> set (FKind f)"
    using t [where opts = ?opts and X = "[pod_two_privileged]"] by blast
  have "GetSummary ?fs =
       \<lparr>SummaryHigh = int (length (filter (\<lambda>f. Severity f = High) ?fs)),
        SummaryMedium = int (length (filter (\<lambda>f. Severity f = Medium) ?fs)),
        ResourcesAffected = int (card ((\<lambda>f. (FKind f, FName f)) ` set ?fs)),
        NamespacesAffected = int (card (FNamespace ` set ?fs - {[]}))\<rparr>"
    using t [of ?fs] k by blast
  moreover have "length (filter (\<lambda>f. Severity f = High) ?fs) = 2"
    by (simp add: Scan_pod_two_privileged finding_defs mkFinding_def)
  moreover have "length (filter (\<lambda>f. Severity f = Medium) ?fs) = 0"
    using High_neq_Medium by (simp add: Scan_pod_two_privileged finding_defs mkFinding_def)
  moreover have "card ((\<lambda>f. (FKind f, FName f)) ` set ?fs) = 1"
    by (simp add: Scan_pod_two_privileged finding_defs mkFinding_def)
  moreover have "card (FNamespace ` set ?fs - {[]}) = 1"
    unfolding Scan_pod_two_privileged
    by (simp add: finding_defs mkFinding_def mkResource_def pod_two_privileged_def
        svc_with_template_def clusterrole_admin_def)
  ultimately have b: "GetSummary ?fs =
     \<lparr>SummaryHigh = 2, SummaryMedium = 0, ResourcesAffected = 1, NamespacesAffected = 1\<rparr>"
    by simp
  show ?thesis using a b h by (simp add: list_all_iff)
qed

subsection \<open>First match wins\<close>

lemma has_wildcard_eq: "has_wildcard xs = (''*'' \<in> set xs)"
  by (induction xs) auto

lemma wildcardRBAC_loop_eq:
  "wildcardRBAC_loop r rs =
     (if \<exists>rule\<in>set rs. ''*'' \<in> set (Verbs rule) \<and> ''*'' \<in> set (Resources rule)
      then [wildcardRBAC_finding r] else [])"
  by (induction rs) (simp_all add: Let_def has_wildcard_eq)

lemma defaultSA_loop_eq:
  "defaultSA_loop r ss =
     (if \<exists>subject\<in>set ss. SKind subject = ''ServiceAccount'' \<and> SName subject = ''default''
      then [defaultSA_finding r] else [])"
  by (induction ss) simp_all

lemma hostPath_loop_Cons:
  "hostPath_loop r (v # vs) =
     (if volume_hostPath v then [hostPath_finding r] else hostPath_loop r vs)"
  by (simp add: volume_hostPath_def split: option.splits)

lemma dockerSocket_loop_Cons:
  "dockerSocket_loop r (v # vs) =
     (if volume_dockerSocket v then [dockerSocket_finding r] else dockerSocket_loop r vs)"
  by (simp add: volume_dockerSocket_def split: option.splits)

lemma runsAsRoot_loop_Cons:
  "runsAsRoot_loop r b u (c # cs) =
     (if container_runsAsRoot b u c then [runsAsRoot_finding r] else runsAsRoot_loop r b u cs)"
  by (simp add: container_runsAsRoot_def Let_def split: option.splits)

lemma privilegeEscalation_loop_Cons:
  "privilegeEscalation_loop r (c # cs) =
     (if container_privilegeEscalation c then [privilegeEscalation_finding r]
      else privilegeEscalation_loop r cs)"
  by (simp add: container_privilegeEscalation_def split: option.splits bool.splits)

lemma latestTag_loop_Cons:
  "latestTag_loop r (c # cs) =
     (if container_latestTag c then [latestTag_finding r] else latestTag_loop r cs)"
  by (simp add: container_latestTag_def split: option.splits)

lemma wildcardRBAC_loop_Cons:
  "wildcardRBAC_loop r (rule # rest) =
     (if rule_wildcard rule then [wildcardRBAC_finding r] else wildcardRBAC_loop r rest)"
  by (simp add: rule_wildcard_def Let_def has_wildcard_eq)

lemma defaultSA_loop_Cons:
  "defaultSA_loop r (subject # rest) =
     (if subject_defaultSA subject then [defaultSA_finding r] else defaultSA_loop r rest)"
  by (simp add: subject_defaultSA_def)

text \<open>A loop over \<open>xs @ ys\<close> returns the finding when an element of \<open>xs\<close> matches, whatever
  \<open>ys\<close> holds, and goes on with \<open>ys\<close> otherwise.\<close>

lemma privileged_loop_append:
  "privileged_loop r (xs @ ys) =
     (if \<exists>x\<in>set xs. container_privileged x then [privileged_finding r]
      else privileged_loop r ys)"
  by (induction xs) (simp_all add: privileged_loop_Cons del: privileged_loop.simps(2))

lemma hostPath_loop_append:
  "hostPath_loop r (xs @ ys) =
     (if \<exists>x\<in>set xs. volume_hostPath x then [hostPath_finding r] else hostPath_loop r ys)"
  by (induction xs) (simp_all add: hostPath_loop_Cons del: hostPath_loop.simps(2))

lemma dockerSocket_loop_append:
  "dockerSocket_loop r (xs @ ys) =
     (if \<exists>x\<in>set xs. volume_dockerSocket x then [dockerSocket_finding r]
      else dockerSocket_loop r ys)"
  by (induction xs) (simp_all add: dockerSocket_loop_Cons del: dockerSocket_loop.simps(2))

lemma runsAsRoot_loop_append:
  "runsAsRoot_loop r b u (xs @ ys) =
     (if \<exists>x\<in>set xs. container_runsAsRoot b u x then [runsAsRoot_finding r]
      else runsAsRoot_loop r b u ys)"
  by (induction xs) (simp_all add: runsAsRoot_loop_Cons del: runsAsRoot_loop.simps(2))

lemma privilegeEscalation_loop_append:
  "privilegeEscalation_loop r (xs @ ys) =
     (if \<exists>x\<in>set xs. container_privilegeEscalation x then [privilegeEscalation_finding r]
      else privilegeEscalation_loop r ys)"
  by (induction xs)
     (simp_all add: privilegeEscalation_loop_Cons del: privilegeEscalation_loop.simps(2))

lemma latestTag_loop_append:
  "latestTag_loop r (xs @ ys) =
     (if \<exists>x\<in>set xs. container_latestTag x then [latestTag_finding r]
      else latestTag_loop r ys)"
  by (induction xs) (simp_all add: latestTag_loop_Cons del: latestTag_loop.simps(2))

lemma wildcardRBAC_loop_append:
  "wildcardRBAC_loop r (xs @ ys) =
     (if \<exists>x\<in>set xs. rule_wildcard x then [wildcardRBAC_finding r]
      else wildcardRBAC_loop r ys)"
  by (induction xs) (simp_all add: wildcardRBAC_loop_Cons del: wildcardRBAC_loop.simps(2))

lemma defaultSA_loop_append:
  "defaultSA_loop r (xs @ ys) =
     (if \<exists>x\<in>set xs. subject_defaultSA x then [defaultSA_finding r]
      else defaultSA_loop r ys)"
  by (induction xs) (simp_all add: defaultSA_loop_Cons del: defaultSA_loop.simps(2))

text \<open>Each rule that scans a sequence, in closed form.\<close>

lemma CheckPrivilegedContainer_eq:
  "CheckPrivilegedContainer r =
     (if \<exists>c\<in>set (containers_of r). container_privileged c then [privileged_finding r] else [])"
  using privileged_loop_append [of r _ "[]"]
  by (simp add: CheckPrivilegedContainer_def containers_of_def split: option.splits)

lemma CheckHostPath_eq:
  "CheckHostPath r =
     (if \<exists>v\<in>set (volumes_of r). volume_hostPath v then [hostPath_finding r] else [])"
  using hostPath_loop_append [of r _ "[]"]
  by (simp add: CheckHostPath_def volumes_of_def split: option.splits)

lemma CheckDockerSocket_eq:
  "CheckDockerSocket r =
     (if \<exists>v\<in>set (volumes_of r). volume_dockerSocket v then [dockerSocket_finding r] else [])"
  using dockerSocket_loop_append [of r _ "[]"]
  by (simp add: CheckDockerSocket_def volumes_of_def split: option.splits)

lemma CheckRunsAsRoot_eq:
  "CheckRunsAsRoot r =
     (if \<exists>c\<in>set (containers_of r).
           container_runsAsRoot (pod_runAsNonRoot (podSpec_of r)) (pod_runAsUser (podSpec_of r)) c
      then [runsAsRoot_finding r] else [])"
  using runsAsRoot_loop_append [of r _ _ _ "[]"]
  by (simp add: CheckRunsAsRoot_def containers_of_def podSpec_of_def Let_def split: option.splits)

lemma CheckPrivilegeEscalation_eq:
  "CheckPrivilegeEscalation r =
     (if \<exists>c\<in>set (containers_of r). container_privilegeEscalation c
      then [privilegeEscalation_finding r] else [])"
  using privilegeEscalation_loop_append [of r _ "[]"]
  by (simp add: CheckPrivilegeEscalation_def containers_of_def split: option.splits)

lemma CheckLatestTag_eq:
  "CheckLatestTag r =
     (if \<exists>c\<in>set (containers_of r). container_latestTag c then [latestTag_finding r] else [])"
  using latestTag_loop_append [of r _ "[]"]
  by (simp add: CheckLatestTag_def containers_of_def split: option.splits)

lemma CheckWildcardRBAC_eq:
  "CheckWildcardRBAC r =
     (if (Kind r = ''Role'' \<or> Kind r = ''ClusterRole'') \<and> (\<exists>rule\<in>set (Rules r). rule_wildcard rule)
      then [wildcardRBAC_finding r] else [])"
  using wildcardRBAC_loop_append [of r _ "[]"]
  by (simp add: CheckWildcardRBAC_def)

lemma CheckClusterRoleBindingDefaultSA_eq:
  "CheckClusterRoleBindingDefaultSA r =
     (if (Kind r = ''ClusterRoleBinding'' \<or> Kind r = ''RoleBinding'')
         \<and> (\<exists>subject\<in>set (Subjects r). subject_defaultSA subject)
      then [defaultSA_finding r] else [])"
  using defaultSA_loop_append [of r _ "[]"]
  by (simp add: CheckClusterRoleBindingDefaultSA_def)

lemma length_cases: "xs = [] \<or> xs = [a] \<Longrightarrow> length xs \<le> 1"
  by auto

lemma length_cases3: "xs = [] \<or> xs = [a] \<or> xs = [b] \<Longrightarrow> length xs \<le> 1"
  by auto

text \<open>
  Claim C8. Every rule returns at most one finding per resource. In each rule that scans a
  sequence (containers in rules 1, 4, 5 and 10, volumes in rules 2 and 3, RBAC rule
  entries in rule 6, subjects in rule 7) the first matching element short-circuits: the
  loop over \<open>xs @ ys\<close> returns the rule's one finding when an element of \<open>xs\<close> matches,
  whatever \<open>ys\<close> holds, and goes on with \<open>ys\<close> when none does; so the rule returns its
  finding once if some element of the sequence matches and nothing otherwise. For rule 12,
  the finding is the \<open>hostPID\<close> one when \<open>hostPID\<close> is true, also when \<open>hostIPC\<close> is true
  as well, and the \<open>hostIPC\<close> one only when \<open>hostPID\<close> is not true.
\<close>

theorem rules_at_most_one_finding:
  "length (CheckPrivilegedContainer r) \<le> 1
   \<and> length (CheckHostPath r) \<le> 1
   \<and> length (CheckDockerSocket r) \<le> 1
   \<and> length (CheckRunsAsRoot r) \<le> 1
   \<and> length (CheckPrivilegeEscalation r) \<le> 1
   \<and> length (CheckWildcardRBAC r) \<le> 1
   \<and> length (CheckClusterRoleBindingDefaultSA r) \<le> 1
   \<and> length (CheckPublicLoadBalancer r) \<le> 1
   \<and> length (CheckNodePort r) \<le> 1
   \<and> length (CheckLatestTag r) \<le> 1
   \<and> length (CheckHostNetwork r) \<le> 1
   \<and> length (CheckHostPIDIPC r) \<le> 1
   \<and> privileged_loop r cs =
        (if \<exists>c\<in>set cs. container_privileged c then [privileged_finding r] else [])
   \<and> wildcardRBAC_loop r rs =
        (if \<exists>rule\<in>set rs. ''*'' \<in> set (Verbs rule) \<and> ''*'' \<in> set (Resources rule)
         then [wildcardRBAC_finding r] else [])
   \<and> defaultSA_loop r ss =
        (if \<exists>subject\<in>set ss. SKind subject = ''ServiceAccount'' \<and> SName subject = ''default''
         then [defaultSA_finding r] else [])
   \<and> privileged_loop r (xs @ ys) =
        (if \<exists>x\<in>set xs. container_privileged x then [privileged_finding r] else privileged_loop r ys)
   \<and> hostPath_loop r (xs @ ys) =
        (if \<exists>x\<in>set xs. volume_hostPath x then [hostPath_finding r] else hostPath_loop r ys)
   \<and> dockerSocket_loop r (xs @ ys) =
        (if \<exists>x\<in>set xs. volume_dockerSocket x then [dockerSocket_finding r] else dockerSocket_loop r ys)
   \<and> runsAsRoot_loop r b u (xs @ ys) =
        (if \<exists>x\<in>set xs. container_runsAsRoot b u x then [runsAsRoot_finding r] else runsAsRoot_loop r b u ys)
   \<and> privilegeEscalation_loop r (xs @ ys) =
        (if \<exists>x\<in>set xs. container_privilegeEscalation x then [privilegeEscalation_finding r] else privilegeEscalation_loop r ys)
   \<and> latestTag_loop r (xs @ ys) =
        (if \<exists>x\<in>set xs. container_latestTag x then [latestTag_finding r] else latestTag_loop r ys)
   \<and> wildcardRBAC_loop r (rs1 @ rs2) =
        (if \<exists>x\<in>set rs1. rule_wildcard x then [wildcardRBAC_finding r] else wildcardRBAC_loop r rs2)
   \<and> defaultSA_loop r (ss1 @ ss2) =
        (if \<exists>x\<in>set ss1. subject_defaultSA x then [defaultSA_finding r] else defaultSA_loop r ss2)
   \<and> CheckPrivilegedContainer r =
        (if \<exists>c\<in>set (containers_of r). container_privileged c
         then [privileged_finding r] else [])
   \<and> CheckHostPath r =
        (if \<exists>v\<in>set (volumes_of r). volume_hostPath v
         then [hostPath_finding r] else [])
   \<and> CheckDockerSocket r =
        (if \<exists>v\<in>set (volumes_of r). volume_dockerSocket v
         then [dockerSocket_finding r] else [])
   \<and> CheckRunsAsRoot r =
        (if \<exists>c\<in>set (containers_of r).
              container_runsAsRoot (pod_runAsNonRoot (podSpec_of r)) (pod_runAsUser (podSpec_of r)) c
         then [runsAsRoot_finding r] else [])
   \<and> CheckPrivilegeEscalation r =
        (if \<exists>c\<in>set (containers_of r). container_privilegeEscalation c
         then [privilegeEscalation_finding r] else [])
   \<and> CheckLatestTag r =
        (if \<exists>c\<in>set (containers_of r). container_latestTag c
         then [latestTag_finding r] else [])
   \<and> CheckWildcardRBAC r =
        (if (Kind r = ''Role'' \<or> Kind r = ''ClusterRole'')
            \<and> (\<exists>rule\<in>set (Rules r). rule_wildcard rule)
         then [wildcardRBAC_finding r] else [])
   \<and> CheckClusterRoleBindingDefaultSA r =
        (if (Kind r = ''ClusterRoleBinding'' \<or> Kind r = ''RoleBinding'')
            \<and> (\<exists>subject\<in>set (Subjects r). subject_defaultSA subject)
         then [defaultSA_finding r] else [])
   \<and> CheckHostPIDIPC r =
        (if as_bool (index (podSpec_of r) ''hostPID'') = Some True then [hostPID_finding r]
         else if as_bool (index (podSpec_of r) ''hostIPC'') = Some True then [hostIPC_finding r]
         else [])
   \<and> Reason (hostPID_finding r) = ''Uses host PID namespace''
   \<and> Reason (hostIPC_finding r) = ''Uses host IPC namespace''
   \<and> (GetPodSpec r = Some podSpec \<and> as_bool (index podSpec ''hostPID'') = Some True
        \<and> as_bool (index podSpec ''hostIPC'') = Some True
      \<longrightarrow> CheckHostPIDIPC r = [hostPID_finding r])"
proof (intro conjI impI)
  show "length (CheckPrivilegedContainer r) \<le> 1"
    by (rule length_cases [OF CheckPrivilegedContainer_cases])
  show "length (CheckHostPath r) \<le> 1"
    by (rule length_cases [OF CheckHostPath_cases])
  show "length (CheckDockerSocket r) \<le> 1"
    by (rule length_cases [OF CheckDockerSocket_cases])
  show "length (CheckRunsAsRoot r) \<le> 1"
    by (rule length_cases [OF CheckRunsAsRoot_cases])
  show "length (CheckPrivilegeEscalation r) \<le> 1"
    by (rule length_cases [OF CheckPrivilegeEscalation_cases])
  show "length (CheckWildcardRBAC r) \<le> 1"
    by (rule length_cases [OF CheckWildcardRBAC_cases])
  show "length (CheckClusterRoleBindingDefaultSA r) \<le> 1"
    by (rule length_cases [OF CheckClusterRoleBindingDefaultSA_cases])
  show "length (CheckPublicLoadBalancer r) \<le> 1"
    by (rule length_cases [OF CheckPublicLoadBalancer_cases])
  show "length (CheckNodePort r) \<le> 1"
    by (rule length_cases [OF CheckNodePort_cases])
  show "length (CheckLatestTag r) \<le> 1"
    by (rule length_cases [OF CheckLatestTag_cases])
  show "length (CheckHostNetwork r) \<le> 1"
    by (rule length_cases [OF CheckHostNetwork_cases])
  show "length (CheckHostPIDIPC r) \<le> 1"
    by (rule length_cases3 [OF CheckHostPIDIPC_cases])
  show "privileged_loop r cs =
        (if \<exists>c\<in>set cs. container_privileged c then [privileged_finding r] else [])"
    by (rule privileged_loop_eq)
  show "wildcardRBAC_loop r rs =
        (if \<exists>rule\<in>set rs. ''*'' \<in> set (Verbs rule) \<and> ''*'' \<in> set (Resources rule)
         then [wildcardRBAC_finding r] else [])"
    by (rule wildcardRBAC_loop_eq)
  show "defaultSA_loop r ss =
        (if \<exists>subject\<in>set ss. SKind subject = ''ServiceAccount'' \<and> SName subject = ''default''
         then [defaultSA_finding r] else [])"
    by (rule defaultSA_loop_eq)
  show "privileged_loop r (xs @ ys) =
        (if \<exists>x\<in>set xs. container_privileged x then [privileged_finding r] else privileged_loop r ys)"
    by (rule privileged_loop_append)
  show "hostPath_loop r (xs @ ys) =
        (if \<exists>x\<in>set xs. volume_hostPath x then [hostPath_finding r] else hostPath_loop r ys)"
    by (rule hostPath_loop_append)
  show "dockerSocket_loop r (xs @ ys) =
        (if \<exists>x\<in>set xs. volume_dockerSocket x then [dockerSocket_finding r] else dockerSocket_loop r ys)"
    by (rule dockerSocket_loop_append)
  show "runsAsRoot_loop r b u (xs @ ys) =
        (if \<exists>x\<in>set xs. container_runsAsRoot b u x then [runsAsRoot_finding r] else runsAsRoot_loop r b u ys)"
    by (rule runsAsRoot_loop_append)
  show "privilegeEscalation_loop r (xs @ ys) =
        (if \<exists>x\<in>set xs. container_privilegeEscalation x then [privilegeEscalation_finding r] else privilegeEscalation_loop r ys)"
    by (rule privilegeEscalation_loop_append)
  show "latestTag_loop r (xs @ ys) =
        (if \<exists>x\<in>set xs. container_latestTag x then [latestTag_finding r] else latestTag_loop r ys)"
    by (rule latestTag_loop_append)
  show "wildcardRBAC_loop r (rs1 @ rs2) =
        (if \<exists>x\<in>set rs1. rule_wildcard x then [wildcardRBAC_finding r] else wildcardRBAC_loop r rs2)"
    by (rule wildcardRBAC_loop_append)
  show "defaultSA_loop r (ss1 @ ss2) =
        (if \<exists>x\<in>set ss1. subject_defaultSA x then [defaultSA_finding r] else defaultSA_loop r ss2)"
    by (rule defaultSA_loop_append)
  show "CheckPrivilegedContainer r =
        (if \<exists>c\<in>set (containers_of r). container_privileged c
         then [privileged_finding r] else [])"
    by (rule CheckPrivilegedContainer_eq)
  show "CheckHostPath r =
        (if \<exists>v\<in>set (volumes_of r). volume_hostPath v
         then [hostPath_finding r] else [])"
    by (rule CheckHostPath_eq)
  show "CheckDockerSocket r =
        (if \<exists>v\<in>set (volumes_of r). volume_dockerSocket v
         then [dockerSocket_finding r] else [])"
    by (rule CheckDockerSocket_eq)
  show "CheckRunsAsRoot r =
        (if \<exists>c\<in>set (containers_of r).
              container_runsAsRoot (pod_runAsNonRoot (podSpec_of r)) (pod_runAsUser (podSpec_of r)) c
         then [runsAsRoot_finding r] else [])"
    by (rule CheckRunsAsRoot_eq)
  show "CheckPrivilegeEscalation r =
        (if \<exists>c\<in>set (containers_of r). container_privilegeEscalation c
         then [privilegeEscalation_finding r] else [])"
    by (rule CheckPrivilegeEscalation_eq)
  show "CheckLatestTag r =
        (if \<exists>c\<in>set (containers_of r). container_latestTag c
         then [latestTag_finding r] else [])"
    by (rule CheckLatestTag_eq)
  show "CheckWildcardRBAC r =
        (if (Kind r = ''Role'' \<or> Kind r = ''ClusterRole'')
            \<and> (\<exists>rule\<in>set (Rules r). rule_wildcard rule)
         then [wildcardRBAC_finding r] else [])"
    by (rule CheckWildcardRBAC_eq)
  show "CheckClusterRoleBindingDefaultSA r =
        (if (Kind r = ''ClusterRoleBinding'' \<or> Kind r = ''RoleBinding'')
            \<and> (\<exists>subject\<in>set (Subjects r). subject_defaultSA subject)
         then [defaultSA_finding r] else [])"
    by (rule CheckClusterRoleBindingDefaultSA_eq)
  show "CheckHostPIDIPC r =
        (if as_bool (index (podSpec_of r) ''hostPID'') = Some True then [hostPID_finding r]
         else if as_bool (index (podSpec_of r) ''hostIPC'') = Some True then [hostIPC_finding r]
         else [])"
    by (simp add: CheckHostPIDIPC_def podSpec_of_def index_def
        split: option.splits bool.splits)
  show "Reason (hostPID_finding r) = ''Uses host PID namespace''"
    by (simp add: hostPID_finding_def mkFinding_def)
  show "Reason (hostIPC_finding r) = ''Uses host IPC namespace''"
    by (simp add: hostIPC_finding_def mkFinding_def)
next
  assume "GetPodSpec r = Some podSpec \<and> as_bool (index podSpec ''hostPID'') = Some True
        \<and> as_bool (index podSpec ''hostIPC'') = Some True"
  then show "CheckHostPIDIPC r = [hostPID_finding r]"
    by (simp add: CheckHostPIDIPC_def)
qed

theorem rules_at_most_one_finding_witness:
  "CheckHostPIDIPC pod_two_privileged = [hostPID_finding pod_two_privileged]
   \<and> as_bool (index (Spec pod_two_privileged) ''hostIPC'') = Some True
   \<and> CheckPrivilegedContainer pod_two_privileged = [privileged_finding pod_two_privileged]
   \<and> length (filter container_privileged
        (case as_slice (index (Spec pod_two_privileged) ''containers'') of
           Some cs \<Rightarrow> cs | None \<Rightarrow> [])) = 2
   \<and> map volume_hostPath (volumes_of pod_three_volumes) = [False, True, True]
   \<and> CheckHostPath pod_three_volumes = [hostPath_finding pod_three_volumes]
   \<and> map volume_dockerSocket (volumes_of pod_three_volumes) = [False, True, False]
   \<and> CheckDockerSocket pod_three_volumes = [dockerSocket_finding pod_three_volumes]"
proof -
  note t = rules_at_most_one_finding
  have g: "GetPodSpec pod_two_privileged = Some (Spec pod_two_privileged)"
    by (simp add: GetPodSpec_def mkResource_def pod_two_privileged_def)
  have h: "as_bool (index (Spec pod_two_privileged) ''hostPID'') = Some True
      \<and> as_bool (index (Spec pod_two_privileged) ''hostIPC'') = Some True"
    by (simp add: index_def mkResource_def pod_two_privileged_def)
  have a: "CheckHostPIDIPC pod_two_privileged = [hostPID_finding pod_two_privileged]"
    using t [where r = pod_two_privileged and podSpec = "Spec pod_two_privileged"] g h
    by blast
  have c: "length (filter container_privileged
        (case as_slice (index (Spec pod_two_privileged) ''containers'') of
           Some cs \<Rightarrow> cs | None \<Rightarrow> [])) = 2"
    by (simp add: container_privileged_def index_def mkResource_def pod_two_privileged_def)
  have cs: "containers_of pod_two_privileged =
      (case as_slice (index (Spec pod_two_privileged) ''containers'') of
           Some cs \<Rightarrow> cs | None \<Rightarrow> [])"
    by (simp add: containers_of_def g)
  have "\<exists>c\<in>set (containers_of pod_two_privileged). container_privileged c"
    using c unfolding cs by (metis filter_False length_0_conv zero_neq_numeral)
  then have b: "CheckPrivilegedContainer pod_two_privileged =
      [privileged_finding pod_two_privileged]"
    using t [where r = pod_two_privileged] by presburger
  have v: "map volume_hostPath (volumes_of pod_three_volumes) = [False, True, True]"
    by (simp add: volumes_of_def volume_hostPath_def read_defs mkResource_def
        pod_three_volumes_def)
  have d: "map volume_dockerSocket (volumes_of pod_three_volumes) = [False, True, False]"
    by (simp add: volumes_of_def volume_dockerSocket_def read_defs mkResource_def
        pod_three_volumes_def strings_HasPrefix_def)
  obtain v1 v2 v3 where vs: "volumes_of pod_three_volumes = [v1, v2, v3]"
    by (simp add: volumes_of_def read_defs mkResource_def pod_three_volumes_def)
  from v vs have "\<exists>x\<in>set (volumes_of pod_three_volumes). volume_hostPath x" by simp
  then have e: "CheckHostPath pod_three_volumes = [hostPath_finding pod_three_volumes]"
    using t [where r = pod_three_volumes] by presburger
  from d vs have "\<exists>x\<in>set (volumes_of pod_three_volumes). volume_dockerSocket x" by simp
  then have f: "CheckDockerSocket pod_three_volumes = [dockerSocket_finding pod_three_volumes]"
    using t [where r = pod_three_volumes] by presburger
  show ?thesis using a c h b v e d f by simp
qed

subsection \<open>Absent structure gives no finding\<close>

lemma non_slice_containers:
  assumes "GetPodSpec r = Some podSpec" and "as_slice (index podSpec ''containers'') = None"
  shows "CheckPrivilegedContainer r = []" and "CheckRunsAsRoot r = []"
    and "CheckPrivilegeEscalation r = []" and "CheckLatestTag r = []"
  using assms
  by (simp_all add: CheckPrivilegedContainer_def CheckRunsAsRoot_def
      CheckPrivilegeEscalation_def CheckLatestTag_def)

lemma non_slice_volumes:
  assumes "GetPodSpec r = Some podSpec" and "as_slice (index podSpec ''volumes'') = None"
  shows "CheckHostPath r = []" and "CheckDockerSocket r = []"
  using assms by (simp_all add: CheckHostPath_def CheckDockerSocket_def)

lemma non_map_element:
  assumes "as_map c = None"
  shows "privileged_loop r (c # cs) = privileged_loop r cs"
    and "hostPath_loop r (c # cs) = hostPath_loop r cs"
    and "dockerSocket_loop r (c # cs) = dockerSocket_loop r cs"
    and "runsAsRoot_loop r b u (c # cs) = runsAsRoot_loop r b u cs"
    and "privilegeEscalation_loop r (c # cs) = privilegeEscalation_loop r cs"
    and "latestTag_loop r (c # cs) = latestTag_loop r cs"
  using assms by simp_all

text \<open>Reading a mapping after the wrongly-typed values are removed: every type assertion
  the rules make gives what it gave before.\<close>

lemma map_of_filter_key:
  "map_of (filter (\<lambda>(k, v). P k) m) k = (if P k then map_of m k else None)"
  by (induction m) auto

lemma index_drop_mistyped:
  "index (drop_mistyped schema m) k =
     (case map_of schema k of
        None \<Rightarrow> index m k
      | Some t \<Rightarrow> if has_type t (index m k) then index m k else VNil)"
proof -
  let ?P = "\<lambda>k. case map_of schema k of None \<Rightarrow> True | Some t \<Rightarrow> has_type t (index m k)"
  have "drop_mistyped schema m = filter (\<lambda>(k, v). ?P k) m"
    by (simp add: drop_mistyped_def)
  then have "map_of (drop_mistyped schema m) k = (if ?P k then map_of m k else None)"
    by (simp only: map_of_filter_key)
  then show ?thesis
    by (simp add: index_def split: option.splits)
qed

lemma has_key_drop_mistyped:
  "has_key (drop_mistyped schema m) k =
     (has_key m k \<and> (case map_of schema k of None \<Rightarrow> True | Some t \<Rightarrow> has_type t (index m k)))"
proof -
  let ?P = "\<lambda>k. case map_of schema k of None \<Rightarrow> True | Some t \<Rightarrow> has_type t (index m k)"
  have "drop_mistyped schema m = filter (\<lambda>(k, v). ?P k) m"
    by (simp add: drop_mistyped_def)
  then have "map_of (drop_mistyped schema m) k = (if ?P k then map_of m k else None)"
    by (simp only: map_of_filter_key)
  then show ?thesis
    by (auto simp: has_key_def)
qed

lemma map_of_at_key:
  "map_of (at_key k f m) k' = (if k' = k then map_option f (map_of m k') else map_of m k')"
  by (induction m) (auto simp: at_key_def)

lemma index_at_key:
  assumes "f VNil = VNil"
  shows "index (at_key k f m) k' = (if k' = k then f (index m k') else index m k')"
  using assms by (simp add: index_def map_of_at_key split: option.splits)

lemma has_key_at_key: "has_key (at_key k f m) k' = has_key m k'"
  by (simp add: has_key_def map_of_at_key)

lemma in_map_simps:
  "in_map f VNil = VNil"
  "as_map (in_map f v) = map_option f (as_map v)"
  "as_bool (in_map f v) = as_bool v"
  "as_int (in_map f v) = as_int v"
  "as_string (in_map f v) = as_string v"
  "as_slice (in_map f v) = as_slice v"
  by (cases v; simp add: in_map_def)+

lemma in_slice_simps:
  "in_slice g VNil = VNil"
  "as_slice (in_slice g v) = map_option g (as_slice v)"
  "as_bool (in_slice g v) = as_bool v"
  "as_int (in_slice g v) = as_int v"
  "as_string (in_slice g v) = as_string v"
  "as_map (in_slice g v) = as_map v"
  by (cases v; simp add: in_slice_def)+

lemma read_typed:
  "as_bool (if has_type TBool v then v else VNil) = as_bool v"
  "as_int (if has_type TInt v then v else VNil) = as_int v"
  "as_string (if has_type TString v then v else VNil) = as_string v"
  "as_slice (if has_type TSlice v then v else VNil) = as_slice v"
  "as_map (if has_type TMap v then v else VNil) = as_map v"
  by simp_all

lemma scrub_securityContext_reads:
  "as_bool (index (scrub_securityContext sc) ''privileged'') = as_bool (index sc ''privileged'')"
  "as_bool (index (scrub_securityContext sc) ''allowPrivilegeEscalation'') =
     as_bool (index sc ''allowPrivilegeEscalation'')"
  "as_bool (index (scrub_securityContext sc) ''runAsNonRoot'') = as_bool (index sc ''runAsNonRoot'')"
  "as_int (index (scrub_securityContext sc) ''runAsUser'') = as_int (index sc ''runAsUser'')"
  by (simp_all add: scrub_securityContext_def index_drop_mistyped)

lemma scrub_container_reads:
  "as_map (index (scrub_container c) ''securityContext'') =
     map_option scrub_securityContext (as_map (index c ''securityContext''))"
  "as_string (index (scrub_container c) ''image'') = as_string (index c ''image'')"
  by (simp_all add: scrub_container_def index_at_key in_map_simps index_drop_mistyped)

lemma scrub_volume_reads:
  "as_map (index (scrub_volume v) ''hostPath'') =
     map_option scrub_hostPath (as_map (index v ''hostPath''))"
  by (simp add: scrub_volume_def index_at_key in_map_simps index_drop_mistyped)

lemma scrub_hostPath_reads:
  "as_string (index (scrub_hostPath hp) ''path'') = as_string (index hp ''path'')"
  by (simp add: scrub_hostPath_def index_drop_mistyped)

lemma scrub_podSpec_reads:
  "as_slice (index (scrub_podSpec ps) ''containers'') =
     map_option (scrub_elements scrub_container) (as_slice (index ps ''containers''))"
  "as_slice (index (scrub_podSpec ps) ''volumes'') =
     map_option (scrub_elements scrub_volume) (as_slice (index ps ''volumes''))"
  "as_map (index (scrub_podSpec ps) ''securityContext'') =
     map_option scrub_securityContext (as_map (index ps ''securityContext''))"
  "as_bool (index (scrub_podSpec ps) ''hostNetwork'') = as_bool (index ps ''hostNetwork'')"
  "as_bool (index (scrub_podSpec ps) ''hostPID'') = as_bool (index ps ''hostPID'')"
  "as_bool (index (scrub_podSpec ps) ''hostIPC'') = as_bool (index ps ''hostIPC'')"
  by (simp_all add: scrub_podSpec_def index_at_key in_map_simps in_slice_simps
      index_drop_mistyped)

text \<open>The trigger of a rule at an element does not change when the wrongly-typed values are
  removed from the element; rule 2 is the exception.\<close>

lemma container_privileged_scrub:
  "container_privileged (VMap (scrub_container c)) = container_privileged (VMap c)"
  by (simp add: container_privileged_def scrub_container_reads scrub_securityContext_reads
      split: option.splits)

lemma container_privilegeEscalation_scrub:
  "container_privilegeEscalation (VMap (scrub_container c)) =
     container_privilegeEscalation (VMap c)"
  by (simp add: container_privilegeEscalation_def scrub_container_reads
      scrub_securityContext_reads split: option.splits)

lemma container_latestTag_scrub:
  "container_latestTag (VMap (scrub_container c)) = container_latestTag (VMap c)"
  by (simp add: container_latestTag_def scrub_container_reads)

lemma container_runsAsRoot_scrub:
  "container_runsAsRoot b u (VMap (scrub_container c)) = container_runsAsRoot b u (VMap c)"
  by (simp add: container_runsAsRoot_def scrub_container_reads scrub_securityContext_reads
      split: option.splits)

lemma volume_dockerSocket_scrub:
  "volume_dockerSocket (VMap (scrub_volume v)) = volume_dockerSocket (VMap v)"
  by (simp add: volume_dockerSocket_def scrub_volume_reads scrub_hostPath_reads
      split: option.splits)

lemma volume_hostPath_scrub:
  "volume_hostPath (VMap (scrub_volume v)) =
     (volume_hostPath (VMap v) \<and> as_map (index v ''hostPath'') \<noteq> None)"
  by (simp add: volume_hostPath_def scrub_volume_def has_key_at_key has_key_drop_mistyped)

lemma ex_scrub_elements:
  assumes "\<And>m. T (VMap (f m)) = T (VMap m)" and "\<And>x. as_map x = None \<Longrightarrow> \<not> T x"
  shows "(\<exists>x\<in>set (scrub_elements f xs). T x) = (\<exists>x\<in>set xs. T x)"
proof -
  have k: "T (in_map f x) = T x" if "as_map x \<noteq> None" for x
    using that assms(1) by (cases x) (simp_all add: in_map_def)
  have m: "as_map x \<noteq> None" if "T x" for x
    using that assms(2) by blast
  show ?thesis
  proof
    assume "\<exists>x\<in>set (scrub_elements f xs). T x"
    then obtain y where y: "y \<in> set xs" "as_map y \<noteq> None" "T (in_map f y)"
      by (auto simp: scrub_elements_def)
    with k [of y] show "\<exists>x\<in>set xs. T x" by blast
  next
    assume "\<exists>x\<in>set xs. T x"
    then obtain y where y: "y \<in> set xs" "T y" by blast
    with m [of y] k [of y] have "in_map f y \<in> set (scrub_elements f xs)" "T (in_map f y)"
      by (auto simp: scrub_elements_def)
    then show "\<exists>x\<in>set (scrub_elements f xs). T x" by blast
  qed
qed

lemma pod_locals_scrub:
  "pod_runAsNonRoot (scrub_podSpec ps) = pod_runAsNonRoot ps"
  "pod_runAsUser (scrub_podSpec ps) = pod_runAsUser ps"
  by (simp_all add: pod_runAsNonRoot_def pod_runAsUser_def scrub_podSpec_reads
      scrub_securityContext_reads split: option.splits)

lemma scrub_resource_fields:
  "Kind (scrub_resource r) = Kind r"
  "Metadata (scrub_resource r) = Metadata r"
  "Rules (scrub_resource r) = Rules r"
  "Subjects (scrub_resource r) = Subjects r"
  "Spec (scrub_resource r) = scrub_Spec (Kind r) (Spec r)"
  by (simp_all add: scrub_resource_def)

lemma scrub_path_reads:
  "as_map (index (scrub_template t) ''spec'') = map_option scrub_podSpec (as_map (index t ''spec''))"
  "as_map (index (scrub_jobSpec js) ''template'') =
     map_option scrub_template (as_map (index js ''template''))"
  "as_map (index (scrub_jobTemplate jt) ''spec'') =
     map_option scrub_jobSpec (as_map (index jt ''spec''))"
  by (simp_all add: scrub_template_def scrub_jobSpec_def scrub_jobTemplate_def index_at_key
      in_map_simps index_drop_mistyped)

lemma scrub_Spec_reads:
  assumes "kind \<noteq> ''Pod''"
  shows "as_map (index (scrub_Spec kind spec) ''template'') =
           map_option scrub_template (as_map (index spec ''template''))"
    and "as_map (index (scrub_Spec kind spec) ''jobTemplate'') =
           map_option scrub_jobTemplate (as_map (index spec ''jobTemplate''))"
    and "as_string (index (scrub_Spec kind spec) ''type'') = as_string (index spec ''type'')"
  using assms
  by (simp_all add: scrub_Spec_def index_at_key in_map_simps index_drop_mistyped)

lemma GetPodSpec_jobTemplate_scrub:
  assumes "Kind r \<noteq> ''Pod''"
  shows "GetPodSpec_jobTemplate (scrub_resource r) =
           map_option scrub_podSpec (GetPodSpec_jobTemplate r)"
  using assms
  by (simp add: GetPodSpec_jobTemplate_def scrub_resource_fields scrub_Spec_reads
      scrub_path_reads split: option.splits)

lemma GetPodSpec_scrub:
  "GetPodSpec (scrub_resource r) = map_option scrub_podSpec (GetPodSpec r)"
proof (cases "Kind r = ''Pod''")
  case True
  then show ?thesis
    by (simp add: GetPodSpec_def scrub_resource_fields scrub_Spec_def)
next
  case False
  then show ?thesis
    by (simp add: GetPodSpec_def scrub_resource_fields scrub_Spec_reads scrub_path_reads
        GetPodSpec_jobTemplate_scrub split: option.splits)
qed

lemma scrub_elements_Nil: "scrub_elements f [] = []"
  by (simp add: scrub_elements_def)

lemma containers_of_scrub:
  "containers_of (scrub_resource r) = scrub_elements scrub_container (containers_of r)"
  by (simp add: containers_of_def GetPodSpec_scrub scrub_podSpec_reads scrub_elements_Nil
      split: option.splits)

lemma volumes_of_scrub:
  "volumes_of (scrub_resource r) = scrub_elements scrub_volume (volumes_of r)"
  by (simp add: volumes_of_def GetPodSpec_scrub scrub_podSpec_reads scrub_elements_Nil
      split: option.splits)

lemma scrub_podSpec_Nil: "scrub_podSpec [] = []"
  by (simp add: scrub_podSpec_def at_key_def drop_mistyped_def)

lemma podSpec_of_scrub: "podSpec_of (scrub_resource r) = scrub_podSpec (podSpec_of r)"
  by (simp add: podSpec_of_def GetPodSpec_scrub scrub_podSpec_Nil split: option.splits)

lemma mkFinding_scrub: "mkFinding i s (scrub_resource r) a b c = mkFinding i s r a b c"
  by (simp add: mkFinding_def scrub_resource_fields)

lemma finding_scrub:
  "privileged_finding (scrub_resource r) = privileged_finding r"
  "hostPath_finding (scrub_resource r) = hostPath_finding r"
  "dockerSocket_finding (scrub_resource r) = dockerSocket_finding r"
  "runsAsRoot_finding (scrub_resource r) = runsAsRoot_finding r"
  "privilegeEscalation_finding (scrub_resource r) = privilegeEscalation_finding r"
  "wildcardRBAC_finding (scrub_resource r) = wildcardRBAC_finding r"
  "defaultSA_finding (scrub_resource r) = defaultSA_finding r"
  "publicLoadBalancer_finding (scrub_resource r) = publicLoadBalancer_finding r"
  "nodePort_finding (scrub_resource r) = nodePort_finding r"
  "latestTag_finding (scrub_resource r) = latestTag_finding r"
  "hostNetwork_finding (scrub_resource r) = hostNetwork_finding r"
  "hostPID_finding (scrub_resource r) = hostPID_finding r"
  "hostIPC_finding (scrub_resource r) = hostIPC_finding r"
  by (simp_all add: finding_defs mkFinding_scrub scrub_resource_fields)

lemma not_map_no_trigger:
  "as_map x = None \<Longrightarrow> \<not> container_privileged x"
  "as_map x = None \<Longrightarrow> \<not> container_privilegeEscalation x"
  "as_map x = None \<Longrightarrow> \<not> container_latestTag x"
  "as_map x = None \<Longrightarrow> \<not> container_runsAsRoot b u x"
  "as_map x = None \<Longrightarrow> \<not> volume_dockerSocket x"
  "as_map x = None \<Longrightarrow> \<not> volume_hostPath x"
  by (simp_all add: container_privileged_def container_privilegeEscalation_def
      container_latestTag_def container_runsAsRoot_def volume_dockerSocket_def
      volume_hostPath_def)

lemma CheckPrivilegedContainer_scrub:
  "CheckPrivilegedContainer (scrub_resource r) = CheckPrivilegedContainer r"
  unfolding CheckPrivilegedContainer_eq containers_of_scrub
  by (simp add: ex_scrub_elements [where T = container_privileged, OF container_privileged_scrub
        not_map_no_trigger(1)] finding_scrub)

lemma CheckPrivilegeEscalation_scrub:
  "CheckPrivilegeEscalation (scrub_resource r) = CheckPrivilegeEscalation r"
  unfolding CheckPrivilegeEscalation_eq containers_of_scrub
  by (simp add: ex_scrub_elements [where T = container_privilegeEscalation,
        OF container_privilegeEscalation_scrub not_map_no_trigger(2)]
      finding_scrub)

lemma CheckLatestTag_scrub:
  "CheckLatestTag (scrub_resource r) = CheckLatestTag r"
  unfolding CheckLatestTag_eq containers_of_scrub
  by (simp add: ex_scrub_elements [where T = container_latestTag, OF container_latestTag_scrub
        not_map_no_trigger(3)] finding_scrub)

lemma CheckRunsAsRoot_scrub:
  "CheckRunsAsRoot (scrub_resource r) = CheckRunsAsRoot r"
  unfolding CheckRunsAsRoot_eq containers_of_scrub podSpec_of_scrub pod_locals_scrub
  by (simp add: ex_scrub_elements [where T = "container_runsAsRoot b u" for b u,
        OF container_runsAsRoot_scrub not_map_no_trigger(4)]
      finding_scrub)

lemma CheckDockerSocket_scrub:
  "CheckDockerSocket (scrub_resource r) = CheckDockerSocket r"
  unfolding CheckDockerSocket_eq volumes_of_scrub
  by (simp add: ex_scrub_elements [where T = volume_dockerSocket, OF volume_dockerSocket_scrub
        not_map_no_trigger(5)] finding_scrub)

lemma CheckHostNetwork_scrub:
  "CheckHostNetwork (scrub_resource r) = CheckHostNetwork r"
  unfolding CheckHostNetwork_def GetPodSpec_scrub finding_scrub
  by (simp add: scrub_podSpec_reads split: option.splits)

lemma CheckHostPIDIPC_scrub:
  "CheckHostPIDIPC (scrub_resource r) = CheckHostPIDIPC r"
  unfolding CheckHostPIDIPC_def GetPodSpec_scrub finding_scrub
  by (simp add: scrub_podSpec_reads split: option.splits)

lemma CheckWildcardRBAC_scrub:
  "CheckWildcardRBAC (scrub_resource r) = CheckWildcardRBAC r"
  unfolding CheckWildcardRBAC_eq
  by (simp add: scrub_resource_fields finding_scrub)

lemma CheckClusterRoleBindingDefaultSA_scrub:
  "CheckClusterRoleBindingDefaultSA (scrub_resource r) = CheckClusterRoleBindingDefaultSA r"
  unfolding CheckClusterRoleBindingDefaultSA_eq
  by (simp add: scrub_resource_fields finding_scrub)

lemma CheckPublicLoadBalancer_scrub:
  "CheckPublicLoadBalancer (scrub_resource r) = CheckPublicLoadBalancer r"
proof (cases "Kind r = ''Pod''")
  case True
  then show ?thesis by (simp add: CheckPublicLoadBalancer_def scrub_resource_fields)
next
  case False
  then show ?thesis
    unfolding CheckPublicLoadBalancer_def finding_scrub
    by (simp add: scrub_resource_fields scrub_Spec_reads)
qed

lemma CheckNodePort_scrub:
  "CheckNodePort (scrub_resource r) = CheckNodePort r"
proof (cases "Kind r = ''Pod''")
  case True
  then show ?thesis by (simp add: CheckNodePort_def scrub_resource_fields)
next
  case False
  then show ?thesis
    unfolding CheckNodePort_def finding_scrub
    by (auto simp: scrub_resource_fields scrub_Spec_reads)
qed

lemma CheckHostPath_scrub:
  assumes "\<forall>v\<in>set (volumes_of r). \<forall>volume. as_map v = Some volume \<and> has_key volume ''hostPath''
      \<longrightarrow> as_map (index volume ''hostPath'') \<noteq> None"
  shows "CheckHostPath (scrub_resource r) = CheckHostPath r"
proof -
  have "(\<exists>x\<in>set (scrub_elements scrub_volume (volumes_of r)). volume_hostPath x) =
        (\<exists>x\<in>set (volumes_of r). volume_hostPath x)"
  proof
    assume "\<exists>x\<in>set (scrub_elements scrub_volume (volumes_of r)). volume_hostPath x"
    then obtain y where y: "y \<in> set (volumes_of r)" "as_map y \<noteq> None"
        "volume_hostPath (in_map scrub_volume y)"
      by (auto simp: scrub_elements_def)
    from y(2) obtain m where m: "y = VMap m" by (cases y) simp_all
    with y(3) have "volume_hostPath (VMap m)"
      by (simp add: in_map_def volume_hostPath_scrub)
    with y(1) m show "\<exists>x\<in>set (volumes_of r). volume_hostPath x" by blast
  next
    assume "\<exists>x\<in>set (volumes_of r). volume_hostPath x"
    then obtain y where y: "y \<in> set (volumes_of r)" "volume_hostPath y" by blast
    have "as_map y \<noteq> None"
      using y(2) not_map_no_trigger(6) [of y] by blast
    then obtain m where m: "y = VMap m" by (cases y) simp_all
    from y(2) m have hk: "has_key m ''hostPath''" by (simp add: volume_hostPath_def)
    with assms y(1) m have "as_map (index m ''hostPath'') \<noteq> None" by auto
    with y(2) m have "volume_hostPath (in_map scrub_volume y)"
      by (simp add: in_map_def volume_hostPath_scrub)
    moreover from y(1) m have "in_map scrub_volume y \<in> set (scrub_elements scrub_volume (volumes_of r))"
      by (auto simp: scrub_elements_def)
    ultimately show "\<exists>x\<in>set (scrub_elements scrub_volume (volumes_of r)). volume_hostPath x"
      by blast
  qed
  then show ?thesis
    unfolding CheckHostPath_eq volumes_of_scrub
    by (simp add: finding_scrub)
qed

text \<open>
  Where the structure a rule looks for is absent, the rule returns no finding: no pod spec,
  a \<open>containers\<close> or \<open>volumes\<close> entry that is not a sequence, a host flag that is not a
  boolean, a service \<open>type\<close> that is not a string; an element of a sequence that is not a
  mapping is skipped. A missing key reads as the nil value, which fails every type assertion.
\<close>

lemma absent_structure_no_finding:
  "(GetPodSpec r = None \<longrightarrow>
      CheckPrivilegedContainer r = [] \<and> CheckHostPath r = [] \<and> CheckDockerSocket r = []
      \<and> CheckRunsAsRoot r = [] \<and> CheckPrivilegeEscalation r = [] \<and> CheckLatestTag r = []
      \<and> CheckHostNetwork r = [] \<and> CheckHostPIDIPC r = [])
   \<and> (GetPodSpec r = Some podSpec \<and> as_slice (index podSpec ''containers'') = None \<longrightarrow>
      CheckPrivilegedContainer r = [] \<and> CheckRunsAsRoot r = []
      \<and> CheckPrivilegeEscalation r = [] \<and> CheckLatestTag r = [])
   \<and> (GetPodSpec r = Some podSpec \<and> as_slice (index podSpec ''volumes'') = None \<longrightarrow>
      CheckHostPath r = [] \<and> CheckDockerSocket r = [])
   \<and> (GetPodSpec r = Some podSpec \<and> as_bool (index podSpec ''hostNetwork'') = None \<longrightarrow>
      CheckHostNetwork r = [])
   \<and> (GetPodSpec r = Some podSpec \<and> as_bool (index podSpec ''hostPID'') = None
        \<and> as_bool (index podSpec ''hostIPC'') = None \<longrightarrow>
      CheckHostPIDIPC r = [])
   \<and> (as_map c = None \<longrightarrow>
      privileged_loop r (c # cs) = privileged_loop r cs
      \<and> hostPath_loop r (c # cs) = hostPath_loop r cs
      \<and> dockerSocket_loop r (c # cs) = dockerSocket_loop r cs
      \<and> runsAsRoot_loop r b u (c # cs) = runsAsRoot_loop r b u cs
      \<and> privilegeEscalation_loop r (c # cs) = privilegeEscalation_loop r cs
      \<and> latestTag_loop r (c # cs) = latestTag_loop r cs)
   \<and> (as_string (index (Spec r) ''type'') = None \<longrightarrow>
      CheckPublicLoadBalancer r = [] \<and> CheckNodePort r = [])
   \<and> (map_of m k = None \<longrightarrow>
      as_map (index m k) = None \<and> as_slice (index m k) = None \<and> as_bool (index m k) = None
      \<and> as_int (index m k) = None \<and> as_string (index m k) = None \<and> \<not> has_key m k)
   \<and> length AllRules = 12"
proof (intro conjI impI)
  assume n: "GetPodSpec r = None"
  show "CheckPrivilegedContainer r = []" "CheckHostPath r = []" "CheckDockerSocket r = []"
    "CheckRunsAsRoot r = []" "CheckPrivilegeEscalation r = []" "CheckLatestTag r = []"
    "CheckHostNetwork r = []" "CheckHostPIDIPC r = []"
    using no_pod_spec_no_finding [OF n] by simp_all
next
  assume a: "GetPodSpec r = Some podSpec \<and> as_slice (index podSpec ''containers'') = None"
  show "CheckPrivilegedContainer r = []" "CheckRunsAsRoot r = []"
    "CheckPrivilegeEscalation r = []" "CheckLatestTag r = []"
    using non_slice_containers [of r podSpec] a by simp_all
next
  assume a: "GetPodSpec r = Some podSpec \<and> as_slice (index podSpec ''volumes'') = None"
  show "CheckHostPath r = []" "CheckDockerSocket r = []"
    using non_slice_volumes [of r podSpec] a by simp_all
next
  assume "GetPodSpec r = Some podSpec \<and> as_bool (index podSpec ''hostNetwork'') = None"
  then show "CheckHostNetwork r = []"
    by (simp add: CheckHostNetwork_def)
next
  assume "GetPodSpec r = Some podSpec \<and> as_bool (index podSpec ''hostPID'') = None
        \<and> as_bool (index podSpec ''hostIPC'') = None"
  then show "CheckHostPIDIPC r = []"
    by (simp add: CheckHostPIDIPC_def)
next
  assume c: "as_map c = None"
  show "privileged_loop r (c # cs) = privileged_loop r cs"
    "hostPath_loop r (c # cs) = hostPath_loop r cs"
    "dockerSocket_loop r (c # cs) = dockerSocket_loop r cs"
    "runsAsRoot_loop r b u (c # cs) = runsAsRoot_loop r b u cs"
    "privilegeEscalation_loop r (c # cs) = privilegeEscalation_loop r cs"
    "latestTag_loop r (c # cs) = latestTag_loop r cs"
    using non_map_element [OF c] by simp_all
next
  assume t: "as_string (index (Spec r) ''type'') = None"
  show "CheckPublicLoadBalancer r = []" "CheckNodePort r = []"
    using t by (simp_all add: CheckPublicLoadBalancer_def CheckNodePort_def)
next
  assume k: "map_of m k = None"
  show "as_map (index m k) = None" "as_slice (index m k) = None" "as_bool (index m k) = None"
    "as_int (index m k) = None" "as_string (index m k) = None" "\<not> has_key m k"
    using k by (simp_all add: index_def has_key_def)
next
  show "length AllRules = 12" by (simp add: AllRules_def)
qed

lemmas scrub_defs =
  scrub_resource_def scrub_Spec_def scrub_podSpec_def scrub_volume_def scrub_hostPath_def
  scrub_container_def scrub_securityContext_def scrub_elements_def drop_mistyped_def at_key_def
  in_map_def in_slice_def index_def

text \<open>
  Claim C9 as stated says that a wrongly-typed value anywhere in the spec tree is treated as
  absent. Rule 2 (hostpath-volume) tests only whether a volume has the key \<open>hostPath\<close>, with
  no type assertion on its value: the pod \<open>pod_hostPath_int\<close>, whose one volume has
  \<open>hostPath: 42\<close>, gets the hostpath-volume finding, and the same pod without that key
  (\<open>pod_hostPath_absent\<close>) gets none.
\<close>

theorem CheckHostPath_wrong_type_counterexample:
  "volumes_of pod_hostPath_int = [VMap [(''name'', VString ''data''), (''hostPath'', VInt 42)]]
   \<and> as_map (VInt 42) = None
   \<and> CheckHostPath pod_hostPath_int = [hostPath_finding pod_hostPath_int]
   \<and> scrub_resource pod_hostPath_int = pod_hostPath_absent
   \<and> CheckHostPath pod_hostPath_absent = []"
  by (simp add: CheckHostPath_def volumes_of_def read_defs scrub_defs mkResource_def
      pod_hostPath_int_def pod_hostPath_absent_def)

text \<open>
  Claim C9, amended. Each of the twelve rules is a total function from resources to finding
  lists: the Go code reads the tree only with comma-ok type assertions, map reads and range
  loops, none of which can panic, and the loops are structural recursions. When the
  extraction gives no pod spec, each of the eight pod-spec-based rules returns no finding;
  this is the case for every resource of a kind other than Pod that has no mapping at
  \<open>spec.template.spec\<close> nor at \<open>spec.jobTemplate.spec.template.spec\<close>. At every position that
  a rule reads with a type assertion, a value of the wrong type is treated as absent:
  \<open>scrub_resource\<close> removes every such value (and every element of \<open>containers\<close> and
  \<open>volumes\<close> that is not a mapping), and the result of each rule other than hostpath-volume
  is the same on \<open>scrub_resource r\<close> as on \<open>r\<close>. For hostpath-volume the same holds when
  every \<open>hostPath\<close> that a volume has is a mapping. \<open>drop_mistyped\<close> keeps a key of the schema
  only with a value of the type the schema gives, and changes no other read.
\<close>

theorem rules_treat_missing_as_absent:
  "(GetPodSpec r = None \<longrightarrow>
      CheckPrivilegedContainer r = [] \<and> CheckHostPath r = [] \<and> CheckDockerSocket r = []
      \<and> CheckRunsAsRoot r = [] \<and> CheckPrivilegeEscalation r = [] \<and> CheckLatestTag r = []
      \<and> CheckHostNetwork r = [] \<and> CheckHostPIDIPC r = [])
   \<and> (GetPodSpec r = Some podSpec \<and> as_slice (index podSpec ''containers'') = None \<longrightarrow>
      CheckPrivilegedContainer r = [] \<and> CheckRunsAsRoot r = []
      \<and> CheckPrivilegeEscalation r = [] \<and> CheckLatestTag r = [])
   \<and> (GetPodSpec r = Some podSpec \<and> as_slice (index podSpec ''volumes'') = None \<longrightarrow>
      CheckHostPath r = [] \<and> CheckDockerSocket r = [])
   \<and> (GetPodSpec r = Some podSpec \<and> as_bool (index podSpec ''hostNetwork'') = None \<longrightarrow>
      CheckHostNetwork r = [])
   \<and> (GetPodSpec r = Some podSpec \<and> as_bool (index podSpec ''hostPID'') = None
        \<and> as_bool (index podSpec ''hostIPC'') = None \<longrightarrow>
      CheckHostPIDIPC r = [])
   \<and> (as_map c = None \<longrightarrow>
      privileged_loop r (c # cs) = privileged_loop r cs
      \<and> hostPath_loop r (c # cs) = hostPath_loop r cs
      \<and> dockerSocket_loop r (c # cs) = dockerSocket_loop r cs
      \<and> runsAsRoot_loop r b u (c # cs) = runsAsRoot_loop r b u cs
      \<and> privilegeEscalation_loop r (c # cs) = privilegeEscalation_loop r cs
      \<and> latestTag_loop r (c # cs) = latestTag_loop r cs)
   \<and> (as_string (index (Spec r) ''type'') = None \<longrightarrow>
      CheckPublicLoadBalancer r = [] \<and> CheckNodePort r = [])
   \<and> (map_of m k = None \<longrightarrow>
      as_map (index m k) = None \<and> as_slice (index m k) = None \<and> as_bool (index m k) = None
      \<and> as_int (index m k) = None \<and> as_string (index m k) = None \<and> \<not> has_key m k)
   \<and> length AllRules = 12
   \<and> (Kind r \<noteq> ''Pod'' \<and> subtree_at (Spec r) [''template'', ''spec''] = None
        \<and> subtree_at (Spec r) [''jobTemplate'', ''spec'', ''template'', ''spec''] = None \<longrightarrow>
      CheckPrivilegedContainer r = [] \<and> CheckHostPath r = [] \<and> CheckDockerSocket r = []
      \<and> CheckRunsAsRoot r = [] \<and> CheckPrivilegeEscalation r = [] \<and> CheckLatestTag r = []
      \<and> CheckHostNetwork r = [] \<and> CheckHostPIDIPC r = [])
   \<and> CheckPrivilegedContainer (scrub_resource r) = CheckPrivilegedContainer r
   \<and> CheckDockerSocket (scrub_resource r) = CheckDockerSocket r
   \<and> CheckRunsAsRoot (scrub_resource r) = CheckRunsAsRoot r
   \<and> CheckPrivilegeEscalation (scrub_resource r) = CheckPrivilegeEscalation r
   \<and> CheckWildcardRBAC (scrub_resource r) = CheckWildcardRBAC r
   \<and> CheckClusterRoleBindingDefaultSA (scrub_resource r) = CheckClusterRoleBindingDefaultSA r
   \<and> CheckPublicLoadBalancer (scrub_resource r) = CheckPublicLoadBalancer r
   \<and> CheckNodePort (scrub_resource r) = CheckNodePort r
   \<and> CheckLatestTag (scrub_resource r) = CheckLatestTag r
   \<and> CheckHostNetwork (scrub_resource r) = CheckHostNetwork r
   \<and> CheckHostPIDIPC (scrub_resource r) = CheckHostPIDIPC r
   \<and> GetPodSpec (scrub_resource r) = map_option scrub_podSpec (GetPodSpec r)
   \<and> ((\<forall>v\<in>set (volumes_of r). \<forall>volume. as_map v = Some volume \<and> has_key volume ''hostPath''
          \<longrightarrow> as_map (index volume ''hostPath'') \<noteq> None) \<longrightarrow>
      CheckHostPath (scrub_resource r) = CheckHostPath r)
   \<and> (map_of schema k = Some t \<and> has_key (drop_mistyped schema m) k \<longrightarrow>
      has_type t (index (drop_mistyped schema m) k))
   \<and> (map_of schema k = Some t \<and> has_type t (index m k) \<longrightarrow>
      index (drop_mistyped schema m) k = index m k)
   \<and> (map_of schema k = None \<longrightarrow> index (drop_mistyped schema m) k = index m k)"
proof (intro conjI)
  show "(GetPodSpec r = None \<longrightarrow>
      CheckPrivilegedContainer r = [] \<and> CheckHostPath r = [] \<and> CheckDockerSocket r = []
      \<and> CheckRunsAsRoot r = [] \<and> CheckPrivilegeEscalation r = [] \<and> CheckLatestTag r = []
      \<and> CheckHostNetwork r = [] \<and> CheckHostPIDIPC r = [])"
    using absent_structure_no_finding
      [where r = r and podSpec = podSpec and c = c and cs = cs and b = b and u = u
        and m = m and k = k]
    by blast
  show "(GetPodSpec r = Some podSpec \<and> as_slice (index podSpec ''containers'') = None \<longrightarrow>
      CheckPrivilegedContainer r = [] \<and> CheckRunsAsRoot r = []
      \<and> CheckPrivilegeEscalation r = [] \<and> CheckLatestTag r = [])"
    using absent_structure_no_finding
      [where r = r and podSpec = podSpec and c = c and cs = cs and b = b and u = u
        and m = m and k = k]
    by blast
  show "(GetPodSpec r = Some podSpec \<and> as_slice (index podSpec ''volumes'') = None \<longrightarrow>
      CheckHostPath r = [] \<and> CheckDockerSocket r = [])"
    using absent_structure_no_finding
      [where r = r and podSpec = podSpec and c = c and cs = cs and b = b and u = u
        and m = m and k = k]
    by blast
  show "(GetPodSpec r = Some podSpec \<and> as_bool (index podSpec ''hostNetwork'') = None \<longrightarrow>
      CheckHostNetwork r = [])"
    using absent_structure_no_finding
      [where r = r and podSpec = podSpec and c = c and cs = cs and b = b and u = u
        and m = m and k = k]
    by blast
  show "(GetPodSpec r = Some podSpec \<and> as_bool (index podSpec ''hostPID'') = None
        \<and> as_bool (index podSpec ''hostIPC'') = None \<longrightarrow>
      CheckHostPIDIPC r = [])"
    using absent_structure_no_finding
      [where r = r and podSpec = podSpec and c = c and cs = cs and b = b and u = u
        and m = m and k = k]
    by blast
  show "(as_map c = None \<longrightarrow>
      privileged_loop r (c # cs) = privileged_loop r cs
      \<and> hostPath_loop r (c # cs) = hostPath_loop r cs
      \<and> dockerSocket_loop r (c # cs) = dockerSocket_loop r cs
      \<and> runsAsRoot_loop r b u (c # cs) = runsAsRoot_loop r b u cs
      \<and> privilegeEscalation_loop r (c # cs) = privilegeEscalation_loop r cs
      \<and> latestTag_loop r (c # cs) = latestTag_loop r cs)"
    using absent_structure_no_finding
      [where r = r and podSpec = podSpec and c = c and cs = cs and b = b and u = u
        and m = m and k = k]
    by blast
  show "(as_string (index (Spec r) ''type'') = None \<longrightarrow>
      CheckPublicLoadBalancer r = [] \<and> CheckNodePort r = [])"
    using absent_structure_no_finding
      [where r = r and podSpec = podSpec and c = c and cs = cs and b = b and u = u
        and m = m and k = k]
    by blast
  show "(map_of m k = None \<longrightarrow>
      as_map (index m k) = None \<and> as_slice (index m k) = None \<and> as_bool (index m k) = None
      \<and> as_int (index m k) = None \<and> as_string (index m k) = None \<and> \<not> has_key m k)"
    using absent_structure_no_finding
      [where r = r and podSpec = podSpec and c = c and cs = cs and b = b and u = u
        and m = m and k = k]
    by blast
  show "length AllRules = 12"
    using absent_structure_no_finding
      [where r = r and podSpec = podSpec and c = c and cs = cs and b = b and u = u
        and m = m and k = k]
    by blast
  show "(Kind r \<noteq> ''Pod'' \<and> subtree_at (Spec r) [''template'', ''spec''] = None
        \<and> subtree_at (Spec r) [''jobTemplate'', ''spec'', ''template'', ''spec''] = None \<longrightarrow>
      CheckPrivilegedContainer r = [] \<and> CheckHostPath r = [] \<and> CheckDockerSocket r = []
      \<and> CheckRunsAsRoot r = [] \<and> CheckPrivilegeEscalation r = [] \<and> CheckLatestTag r = []
      \<and> CheckHostNetwork r = [] \<and> CheckHostPIDIPC r = [])"
    using no_pod_spec_no_finding [of r] GetPodSpec_eq_subtree [of r] by simp
  show "CheckPrivilegedContainer (scrub_resource r) = CheckPrivilegedContainer r"
    by (rule CheckPrivilegedContainer_scrub)
  show "CheckDockerSocket (scrub_resource r) = CheckDockerSocket r"
    by (rule CheckDockerSocket_scrub)
  show "CheckRunsAsRoot (scrub_resource r) = CheckRunsAsRoot r"
    by (rule CheckRunsAsRoot_scrub)
  show "CheckPrivilegeEscalation (scrub_resource r) = CheckPrivilegeEscalation r"
    by (rule CheckPrivilegeEscalation_scrub)
  show "CheckWildcardRBAC (scrub_resource r) = CheckWildcardRBAC r"
    by (rule CheckWildcardRBAC_scrub)
  show "CheckClusterRoleBindingDefaultSA (scrub_resource r) = CheckClusterRoleBindingDefaultSA r"
    by (rule CheckClusterRoleBindingDefaultSA_scrub)
  show "CheckPublicLoadBalancer (scrub_resource r) = CheckPublicLoadBalancer r"
    by (rule CheckPublicLoadBalancer_scrub)
  show "CheckNodePort (scrub_resource r) = CheckNodePort r"
    by (rule CheckNodePort_scrub)
  show "CheckLatestTag (scrub_resource r) = CheckLatestTag r"
    by (rule CheckLatestTag_scrub)
  show "CheckHostNetwork (scrub_resource r) = CheckHostNetwork r"
    by (rule CheckHostNetwork_scrub)
  show "CheckHostPIDIPC (scrub_resource r) = CheckHostPIDIPC r"
    by (rule CheckHostPIDIPC_scrub)
  show "GetPodSpec (scrub_resource r) = map_option scrub_podSpec (GetPodSpec r)"
    by (rule GetPodSpec_scrub)
  show "((\<forall>v\<in>set (volumes_of r). \<forall>volume. as_map v = Some volume \<and> has_key volume ''hostPath''
          \<longrightarrow> as_map (index volume ''hostPath'') \<noteq> None) \<longrightarrow>
      CheckHostPath (scrub_resource r) = CheckHostPath r)"
    using CheckHostPath_scrub [of r] by blast
  show "(map_of schema k = Some t \<and> has_key (drop_mistyped schema m) k \<longrightarrow>
      has_type t (index (drop_mistyped schema m) k))"
    by (auto simp: has_key_drop_mistyped index_drop_mistyped)
  show "(map_of schema k = Some t \<and> has_type t (index m k) \<longrightarrow>
      index (drop_mistyped schema m) k = index m k)"
    by (simp add: index_drop_mistyped)
  show "(map_of schema k = None \<longrightarrow> index (drop_mistyped schema m) k = index m k)"
    by (simp add: index_drop_mistyped)
qed

theorem rules_treat_missing_as_absent_witness:
  "GetPodSpec svc_plain = None
   \<and> concat (map (\<lambda>rule. rule svc_plain) AllRules) = []
   \<and> GetPodSpec pod_wrong_types = Some (Spec pod_wrong_types)
   \<and> concat (map (\<lambda>rule. rule pod_wrong_types) AllRules) = []
   \<and> Namespace (Metadata svc_type_int) = ''prod''
   \<and> concat (map (\<lambda>rule. rule svc_type_int) AllRules) = []
   \<and> privileged_loop pod_two_privileged
        [VString ''x'', VMap [(''securityContext'', VMap [(''privileged'', VBool True)])]]
       = [privileged_finding pod_two_privileged]
   \<and> as_map (index [(''name'', VString ''app'')] ''securityContext'') = None
   \<and> Kind svc_plain = ''Service''
   \<and> subtree_at (Spec svc_plain) [''template'', ''spec''] = None
   \<and> subtree_at (Spec svc_plain) [''jobTemplate'', ''spec'', ''template'', ''spec''] = None
   \<and> CheckHostNetwork svc_plain = []
   \<and> volumes_of pod_mistyped =
       [VMap [(''name'', VString ''data''), (''hostPath'', VMap [(''path'', VInt 7)])]]
   \<and> scrub_resource pod_mistyped = pod_mistyped_scrubbed
   \<and> concat (map (\<lambda>rule. rule pod_mistyped) AllRules) =
       concat (map (\<lambda>rule. rule pod_mistyped_scrubbed) AllRules)
   \<and> concat (map (\<lambda>rule. rule pod_mistyped_scrubbed) AllRules) =
       [hostPath_finding pod_mistyped_scrubbed, runsAsRoot_finding pod_mistyped_scrubbed]
   \<and> has_type TBool
        (index (drop_mistyped [(''privileged'', TBool)] [(''privileged'', VBool True)])
           ''privileged'')
   \<and> drop_mistyped [(''privileged'', TBool)] [(''privileged'', VString ''true'')] = []"
proof -
  note t = rules_treat_missing_as_absent
  have n1: "GetPodSpec svc_plain = None"
    by (simp add: read_defs mkResource_def svc_plain_def pod_two_privileged_def pod_wrong_types_def svc_type_int_def)
  have t1: "as_string (index (Spec svc_plain) ''type'') = Some ''ClusterIP''"
    by (simp add: index_def mkResource_def svc_plain_def pod_two_privileged_def pod_wrong_types_def svc_type_int_def)
  have r1: "CheckPrivilegedContainer svc_plain = [] \<and> CheckHostPath svc_plain = []
      \<and> CheckDockerSocket svc_plain = [] \<and> CheckRunsAsRoot svc_plain = []
      \<and> CheckPrivilegeEscalation svc_plain = [] \<and> CheckLatestTag svc_plain = []
      \<and> CheckHostNetwork svc_plain = [] \<and> CheckHostPIDIPC svc_plain = []"
    using t [where r = svc_plain and podSpec = "[]" and c = VNil and cs = "[]" and b = False
        and u = 0 and m = "[]" and k = "[]" and schema = "[]" and t = TBool] n1
    by simp
  have o1: "CheckWildcardRBAC svc_plain = [] \<and> CheckClusterRoleBindingDefaultSA svc_plain = []
      \<and> CheckPublicLoadBalancer svc_plain = [] \<and> CheckNodePort svc_plain = []"
    by (simp add: CheckWildcardRBAC_def CheckClusterRoleBindingDefaultSA_def
        CheckPublicLoadBalancer_def CheckNodePort_def t1 sensitiveNamespaces_def)
       (simp add: mkResource_def svc_plain_def pod_two_privileged_def pod_wrong_types_def svc_type_int_def)
  have a1: "concat (map (\<lambda>rule. rule svc_plain) AllRules) = []"
    using r1 o1 by (simp add: AllRules_def)
  have g2: "GetPodSpec pod_wrong_types = Some (Spec pod_wrong_types)"
    by (simp add: GetPodSpec_def mkResource_def svc_plain_def pod_two_privileged_def pod_wrong_types_def svc_type_int_def)
  have w2: "as_slice (index (Spec pod_wrong_types) ''containers'') = None
      \<and> as_slice (index (Spec pod_wrong_types) ''volumes'') = None
      \<and> as_bool (index (Spec pod_wrong_types) ''hostNetwork'') = None
      \<and> as_bool (index (Spec pod_wrong_types) ''hostPID'') = None
      \<and> as_bool (index (Spec pod_wrong_types) ''hostIPC'') = None
      \<and> as_string (index (Spec pod_wrong_types) ''type'') = None"
    by (simp add: index_def mkResource_def svc_plain_def pod_two_privileged_def pod_wrong_types_def svc_type_int_def)
  have r2: "CheckPrivilegedContainer pod_wrong_types = [] \<and> CheckHostPath pod_wrong_types = []
      \<and> CheckDockerSocket pod_wrong_types = [] \<and> CheckRunsAsRoot pod_wrong_types = []
      \<and> CheckPrivilegeEscalation pod_wrong_types = [] \<and> CheckLatestTag pod_wrong_types = []
      \<and> CheckHostNetwork pod_wrong_types = [] \<and> CheckHostPIDIPC pod_wrong_types = []
      \<and> CheckPublicLoadBalancer pod_wrong_types = [] \<and> CheckNodePort pod_wrong_types = []"
    using t [where r = pod_wrong_types and podSpec = "Spec pod_wrong_types" and c = VNil
        and cs = "[]" and b = False and u = 0 and m = "[]" and k = "[]" and schema = "[]"
        and t = TBool] g2 w2
    by simp
  have o2: "CheckWildcardRBAC pod_wrong_types = []
      \<and> CheckClusterRoleBindingDefaultSA pod_wrong_types = []"
    by (simp add: CheckWildcardRBAC_def CheckClusterRoleBindingDefaultSA_def mkResource_def svc_plain_def pod_two_privileged_def pod_wrong_types_def svc_type_int_def)
  have a2: "concat (map (\<lambda>rule. rule pod_wrong_types) AllRules) = []"
    using r2 o2 by (simp add: AllRules_def)
  have n3: "GetPodSpec svc_type_int = None"
    by (simp add: read_defs mkResource_def svc_plain_def pod_two_privileged_def pod_wrong_types_def svc_type_int_def)
  have w3: "as_string (index (Spec svc_type_int) ''type'') = None"
    by (simp add: index_def mkResource_def svc_plain_def pod_two_privileged_def pod_wrong_types_def svc_type_int_def)
  have r3: "CheckPrivilegedContainer svc_type_int = [] \<and> CheckHostPath svc_type_int = []
      \<and> CheckDockerSocket svc_type_int = [] \<and> CheckRunsAsRoot svc_type_int = []
      \<and> CheckPrivilegeEscalation svc_type_int = [] \<and> CheckLatestTag svc_type_int = []
      \<and> CheckHostNetwork svc_type_int = [] \<and> CheckHostPIDIPC svc_type_int = []
      \<and> CheckPublicLoadBalancer svc_type_int = [] \<and> CheckNodePort svc_type_int = []"
    using t [where r = svc_type_int and podSpec = "[]" and c = VNil and cs = "[]" and b = False
        and u = 0 and m = "[]" and k = "[]" and schema = "[]" and t = TBool] n3 w3
    by simp
  have o3: "CheckWildcardRBAC svc_type_int = []
      \<and> CheckClusterRoleBindingDefaultSA svc_type_int = []"
    by (simp add: CheckWildcardRBAC_def CheckClusterRoleBindingDefaultSA_def mkResource_def svc_plain_def pod_two_privileged_def pod_wrong_types_def svc_type_int_def)
  have a3: "concat (map (\<lambda>rule. rule svc_type_int) AllRules) = []"
    using r3 o3 by (simp add: AllRules_def)
  have ns3: "Namespace (Metadata svc_type_int) = ''prod''"
    by (simp add: mkResource_def svc_plain_def pod_two_privileged_def pod_wrong_types_def svc_type_int_def)
  have c4: "as_map (VString ''x'') = None" by simp
  have "privileged_loop pod_two_privileged
        [VString ''x'', VMap [(''securityContext'', VMap [(''privileged'', VBool True)])]]
       = privileged_loop pod_two_privileged
        [VMap [(''securityContext'', VMap [(''privileged'', VBool True)])]]"
    using t [where r = pod_two_privileged and podSpec = "[]" and c = "VString ''x''"
        and cs = "[VMap [(''securityContext'', VMap [(''privileged'', VBool True)])]]"
        and b = False and u = 0
        and m = "[]" and k = "[]" and schema = "[]" and t = TBool] c4
    by simp
  then have a4: "privileged_loop pod_two_privileged
        [VString ''x'', VMap [(''securityContext'', VMap [(''privileged'', VBool True)])]]
       = [privileged_finding pod_two_privileged]"
    by (simp add: index_def)
  have k5: "map_of [(''name'', VString ''app'')] ''securityContext'' = None" by simp
  have a5: "as_map (index [(''name'', VString ''app'')] ''securityContext'') = None"
    using t [where r = svc_plain and podSpec = "[]" and c = VNil and cs = "[]" and b = False
        and u = 0 and m = "[(''name'', VString ''app'')]" and k = "''securityContext''"
        and schema = "[]" and t = TBool] k5
    by simp
  have s1: "Kind svc_plain \<noteq> ''Pod'' \<and> subtree_at (Spec svc_plain) [''template'', ''spec''] = None
      \<and> subtree_at (Spec svc_plain) [''jobTemplate'', ''spec'', ''template'', ''spec''] = None"
    by (simp add: index_def mkResource_def svc_plain_def)
  have k1: "Kind svc_plain = ''Service''"
    by (simp add: mkResource_def svc_plain_def)
  have s2: "CheckHostNetwork svc_plain = [] \<and> CheckPrivilegedContainer svc_plain = []"
    using t [where r = svc_plain and podSpec = "[]" and c = VNil and cs = "[]" and b = False
        and u = 0 and m = "[]" and k = "[]" and schema = "[]" and t = TBool] s1
    by simp
  have sc: "scrub_resource pod_mistyped = pod_mistyped_scrubbed"
    by (simp add: scrub_defs mkResource_def pod_mistyped_def pod_mistyped_scrubbed_def)
  have inv: "CheckPrivilegedContainer pod_mistyped_scrubbed = CheckPrivilegedContainer pod_mistyped
      \<and> CheckDockerSocket pod_mistyped_scrubbed = CheckDockerSocket pod_mistyped
      \<and> CheckRunsAsRoot pod_mistyped_scrubbed = CheckRunsAsRoot pod_mistyped
      \<and> CheckPrivilegeEscalation pod_mistyped_scrubbed = CheckPrivilegeEscalation pod_mistyped
      \<and> CheckWildcardRBAC pod_mistyped_scrubbed = CheckWildcardRBAC pod_mistyped
      \<and> CheckClusterRoleBindingDefaultSA pod_mistyped_scrubbed
          = CheckClusterRoleBindingDefaultSA pod_mistyped
      \<and> CheckPublicLoadBalancer pod_mistyped_scrubbed = CheckPublicLoadBalancer pod_mistyped
      \<and> CheckNodePort pod_mistyped_scrubbed = CheckNodePort pod_mistyped
      \<and> CheckLatestTag pod_mistyped_scrubbed = CheckLatestTag pod_mistyped
      \<and> CheckHostNetwork pod_mistyped_scrubbed = CheckHostNetwork pod_mistyped
      \<and> CheckHostPIDIPC pod_mistyped_scrubbed = CheckHostPIDIPC pod_mistyped"
    using t [where r = pod_mistyped and podSpec = "[]" and c = VNil and cs = "[]" and b = False
        and u = 0 and m = "[]" and k = "[]" and schema = "[]" and t = TBool] sc
    by simp
  have vs: "volumes_of pod_mistyped =
      [VMap [(''name'', VString ''data''), (''hostPath'', VMap [(''path'', VInt 7)])]]"
    by (simp add: volumes_of_def read_defs mkResource_def pod_mistyped_def)
  have hp: "\<forall>v\<in>set (volumes_of pod_mistyped). \<forall>volume.
      as_map v = Some volume \<and> has_key volume ''hostPath''
        \<longrightarrow> as_map (index volume ''hostPath'') \<noteq> None"
    unfolding vs by (simp add: index_def)
  have invh: "CheckHostPath pod_mistyped_scrubbed = CheckHostPath pod_mistyped"
    using t [where r = pod_mistyped and podSpec = "[]" and c = VNil and cs = "[]" and b = False
        and u = 0 and m = "[]" and k = "[]" and schema = "[]" and t = TBool] hp sc
    by simp
  have ev: "concat (map (\<lambda>rule. rule pod_mistyped_scrubbed) AllRules) =
      [hostPath_finding pod_mistyped_scrubbed, runsAsRoot_finding pod_mistyped_scrubbed]"
    by (simp add: AllRules_def rule_defs read_defs mkResource_def pod_mistyped_scrubbed_def)
  have same: "concat (map (\<lambda>rule. rule pod_mistyped) AllRules) =
      concat (map (\<lambda>rule. rule pod_mistyped_scrubbed) AllRules)"
    using inv invh by (simp add: AllRules_def)
  have d0: "map_of [(''privileged'', TBool)] ''privileged'' = Some TBool
      \<and> has_key (drop_mistyped [(''privileged'', TBool)] [(''privileged'', VBool True)])
            ''privileged''"
    by (simp add: has_key_def drop_mistyped_def index_def)
  have d1: "has_type TBool
      (index (drop_mistyped [(''privileged'', TBool)] [(''privileged'', VBool True)])
         ''privileged'')"
    using t [where r = svc_plain and podSpec = "[]" and c = VNil and cs = "[]" and b = False
        and u = 0 and m = "[(''privileged'', VBool True)]" and k = "''privileged''"
        and schema = "[(''privileged'', TBool)]" and t = TBool] d0
    by simp
  have d2: "drop_mistyped [(''privileged'', TBool)] [(''privileged'', VString ''true'')] = []"
    by (simp add: drop_mistyped_def index_def)
  show ?thesis
    using n1 a1 g2 a2 ns3 a3 a4 a5 k1 s1 s2 vs sc same ev d1 d2 by simp
qed

subsection \<open>The diff when no name contains the separator\<close>

text \<open>A finding of a rule carries the name and namespace of its resource and one of the
  twelve rule identifiers; when no resource name contains \<open>"|"\<close>, the keys of the findings
  of two scans are equal exactly when their identity tuples are, and \<open>Diff\<close> is the diff by
  identity tuple.\<close>

lemma AllRules_finding_fields:
  assumes "rule \<in> set AllRules" and "f \<in> set (rule r)"
  shows "FName f = Name (Metadata r) \<and> FNamespace f = Namespace (Metadata r)
     \<and> CHR ''|'' \<notin> set (RuleID f)"
proof -
  from assms(1) consider
      "rule = CheckPrivilegedContainer" | "rule = CheckHostPath" | "rule = CheckDockerSocket"
    | "rule = CheckRunsAsRoot" | "rule = CheckPrivilegeEscalation" | "rule = CheckWildcardRBAC"
    | "rule = CheckClusterRoleBindingDefaultSA" | "rule = CheckPublicLoadBalancer"
    | "rule = CheckNodePort" | "rule = CheckLatestTag" | "rule = CheckHostNetwork"
    | "rule = CheckHostPIDIPC"
    by (auto simp: AllRules_def)
  then show ?thesis
  proof cases
    case 1 with assms(2) CheckPrivilegedContainer_cases [of r] show ?thesis
      by (auto simp: finding_defs mkFinding_def)
  next
    case 2 with assms(2) CheckHostPath_cases [of r] show ?thesis
      by (auto simp: finding_defs mkFinding_def)
  next
    case 3 with assms(2) CheckDockerSocket_cases [of r] show ?thesis
      by (auto simp: finding_defs mkFinding_def)
  next
    case 4 with assms(2) CheckRunsAsRoot_cases [of r] show ?thesis
      by (auto simp: finding_defs mkFinding_def)
  next
    case 5 with assms(2) CheckPrivilegeEscalation_cases [of r] show ?thesis
      by (auto simp: finding_defs mkFinding_def)
  next
    case 6 with assms(2) CheckWildcardRBAC_cases [of r] show ?thesis
      by (auto simp: finding_defs mkFinding_def)
  next
    case 7 with assms(2) CheckClusterRoleBindingDefaultSA_cases [of r] show ?thesis
      by (auto simp: finding_defs mkFinding_def)
  next
    case 8 with assms(2) CheckPublicLoadBalancer_cases [of r] show ?thesis
      by (auto simp: finding_defs mkFinding_def)
  next
    case 9 with assms(2) CheckNodePort_cases [of r] show ?thesis
      by (auto simp: finding_defs mkFinding_def)
  next
    case 10 with assms(2) CheckLatestTag_cases [of r] show ?thesis
      by (auto simp: finding_defs mkFinding_def)
  next
    case 11 with assms(2) CheckHostNetwork_cases [of r] show ?thesis
      by (auto simp: finding_defs mkFinding_def)
  next
    case 12 with assms(2) CheckHostPIDIPC_cases [of r] show ?thesis
      by (auto simp: finding_defs mkFinding_def)
  qed
qed

lemma supported_no_pipe:
  assumes "IsSupportedKind k"
  shows "CHR ''|'' \<notin> set k"
proof -
  from assms have "k \<in> fst ` set supported"
    by (auto simp: IsSupportedKind_def split: option.splits dest: map_of_SomeD intro: rev_image_eqI)
  then show ?thesis
    by (auto simp: supported_def)
qed

lemma Scan_findings_no_pipe:
  assumes "f \<in> set (Findings (Scan (NewScanner opts) X))"
    and "\<forall>r\<in>set X. CHR ''|'' \<notin> set (Name (Metadata r))"
  shows "CHR ''|'' \<notin> set (RuleID f) \<and> CHR ''|'' \<notin> set (FKind f) \<and> CHR ''|'' \<notin> set (FName f)"
proof -
  from assms(1) have "f \<in> set (scan_loop AllRules X [])"
    by (auto simp: Scan_eq NewScanner_def split: if_splits)
  then obtain r rule where r: "r \<in> set X" "IsSupportedKind (Kind r)"
      and rule: "rule \<in> set AllRules" "f \<in> set (rule r)"
    by (auto simp: scan_loop_eq)
  from AllRules_finding_fields [OF rule] AllRules_of_resource [OF rule]
    supported_no_pipe [OF r(2)] assms(2) r(1)
  show ?thesis by simp
qed

lemma Diff_eq_Diff_by_identity:
  assumes "\<forall>r\<in>set oldResources. CHR ''|'' \<notin> set (Name (Metadata r))"
    and "\<forall>r\<in>set newResources. CHR ''|'' \<notin> set (Name (Metadata r))"
  shows "Findings (Diff (NewScanner opts) oldResources newResources) =
         Diff_by_identity (NewScanner opts) oldResources newResources"
proof -
  let ?old = "Findings (Scan (NewScanner opts) oldResources)"
  let ?new = "Findings (Scan (NewScanner opts) newResources)"
  have "(findingKey f \<in> findingKey ` set ?old) = (identity f \<in> identity ` set ?old)"
    if f: "f \<in> set ?new" for f
  proof
    assume "findingKey f \<in> findingKey ` set ?old"
    then obtain g where g: "g \<in> set ?old" "findingKey f = findingKey g" by auto
    from Scan_findings_no_pipe [OF f assms(2)] Scan_findings_no_pipe [OF g(1) assms(1)] g(2)
    have "identity f = identity g" using findingKey_inj [of f g] by blast
    with g(1) show "identity f \<in> identity ` set ?old" by auto
  next
    assume "identity f \<in> identity ` set ?old"
    then obtain g where g: "g \<in> set ?old" "identity f = identity g" by auto
    from identity_imp_findingKey [OF g(2)] g(1)
    show "findingKey f \<in> findingKey ` set ?old" by auto
  qed
  then have "filter (\<lambda>f. findingKey f \<notin> findingKey ` set ?old) ?new =
             filter (\<lambda>f. identity f \<notin> identity ` set ?old) ?new"
    by (intro filter_cong refl) simp
  then show ?thesis
    by (simp add: Diff_eq Diff_by_identity_def)
qed

end
